theory Spec2Isabelle
  imports Main "HOL-Library.Word"
begin

unbundle bit_operations_syntax

section \<open>YakuLingo launcher (launcher.c): a shallow embedding\<close>

text \<open>
  The launcher is one C file of five functions: \<open>IsAppRunning\<close>, \<open>FindPythonDir\<close>,
  \<open>FixPyvenvCfg\<close>, \<open>SetupEnvironment\<close> and \<open>WinMain\<close>. Each is embedded below under its
  own name. Wide strings (\<open>WCHAR*\<close>) are HOL strings; the zero-terminated view of a
  buffer is taken where the source relies on it. What the operating system decides
  (the outcome of a WinHTTP call, the contents of a directory, whether a file can be
  opened) is a field of an explicit state record, and every effect of the program is an
  update of such a record.
\<close>

subsection \<open>Characters, constants and faults\<close>

abbreviation NUL :: char where "NUL \<equiv> CHR 0x00"
abbreviation NL :: char where "NL \<equiv> CHR 0x0A"
abbreviation BS :: char where "BS \<equiv> CHR 0x5C"
abbreviation DQ :: char where "DQ \<equiv> CHR 0x22"

definition APP_PORT :: int where "APP_PORT = 8765"
definition MAX_ENV_SIZE :: nat where "MAX_ENV_SIZE = 32767"

text \<open>\<open>MAX_PATH\<close> comes from \<open>windows.h\<close>, where it is 260.\<close>

definition MAX_PATH :: nat where "MAX_PATH = 260"

text \<open>
  Two ways in which a run can end inside a library call instead of returning:
  \<^item> \<open>InvalidParameter\<close>: a checked CRT function (\<open>wcscpy_s\<close>) found its destination too
    small. The CRT then calls the invalid-parameter handler; launcher.c installs none, and
    the default handler ends the process.
  \<^item> \<open>BufferOverrun\<close>: an unchecked formatter (\<open>wsprintfW\<close>) was given more characters than
    the destination array holds. C leaves the behaviour undefined; the model stops there.
\<close>

datatype fault = InvalidParameter | BufferOverrun

subsection \<open>C runtime and user32 string primitives\<close>

text \<open>The zero-terminated string held in a buffer.\<close>

definition c_str :: "string \<Rightarrow> string" where
  "c_str buf = takeWhile (\<lambda>c. c \<noteq> NUL) buf"

text \<open>\<open>towlower\<close> in the "C" locale (the launcher never calls \<open>setlocale\<close>): only A-Z change.\<close>

definition towlower :: "char \<Rightarrow> char" where
  "towlower c =
     (case map_of (zip ''ABCDEFGHIJKLMNOPQRSTUVWXYZ'' ''abcdefghijklmnopqrstuvwxyz'') c of
        Some l \<Rightarrow> l
      | None \<Rightarrow> c)"

text \<open>
  \<open>wcsncmp(s1, s2, n) == 0\<close> and \<open>_wcsnicmp(s1, s2, n) == 0\<close> on zero-terminated strings:
  the first \<open>n\<close> characters agree (a shorter string ends the comparison at its terminator,
  which equals no character).
\<close>

definition wcsncmp_eq :: "string \<Rightarrow> string \<Rightarrow> nat \<Rightarrow> bool" where
  "wcsncmp_eq s1 s2 n = (take n s1 = take n s2)"

definition wcsnicmp_eq :: "string \<Rightarrow> string \<Rightarrow> nat \<Rightarrow> bool" where
  "wcsnicmp_eq s1 s2 n = (map towlower (take n s1) = map towlower (take n s2))"

text \<open>
  \<open>wcscpy_s(dest, cap, src)\<close>: the copy needs room for the string and its terminator.
\<close>

definition wcscpy_s :: "nat \<Rightarrow> string \<Rightarrow> fault + string" where
  "wcscpy_s cap src = (if length src < cap then Inr src else Inl InvalidParameter)"

text \<open>
  \<open>wsprintfW(dest, fmt, ...)\<close> into an array of \<open>cap\<close> wide characters; \<open>s\<close> is the text the
  format expands to. The function stores at most 1024 characters, terminator included
  (the documented maximum size of its output buffer), and does not know \<open>cap\<close>.
\<close>

definition wsprintfW :: "nat \<Rightarrow> string \<Rightarrow> fault + string" where
  "wsprintfW cap s =
     (let out = take 1023 s
      in if length out < cap then Inr out else Inl BufferOverrun)"

subsection \<open>The liveness probe: \<open>IsAppRunning\<close>\<close>

text \<open>
  The outcome of each WinHTTP stage is decided by the system and the network; the record
  says, for one attempt of each stage, whether it yields a handle (or TRUE).
\<close>

record winhttp =
  WinHttpOpen_ok :: bool
  WinHttpConnect_ok :: "16 word \<Rightarrow> bool"
  WinHttpOpenRequest_ok :: bool
  WinHttpSendRequest_ok :: bool
  WinHttpReceiveResponse_ok :: bool

datatype hinternet = hSession | hConnect | hRequest

datatype winhttp_option =
  WINHTTP_OPTION_CONNECT_TIMEOUT | WINHTTP_OPTION_SEND_TIMEOUT | WINHTTP_OPTION_RECEIVE_TIMEOUT

datatype winhttp_call =
  WinHttpOpen
| WinHttpSetOption winhttp_option nat
| WinHttpConnect "16 word"
| WinHttpOpenRequest
| WinHttpSendRequest
| WinHttpReceiveResponse
| WinHttpCloseHandle hinternet

text \<open>The \<open>cleanup:\<close> label: each handle that is not NULL is closed, request first.\<close>

definition cleanup :: "bool \<Rightarrow> bool \<Rightarrow> bool \<Rightarrow> winhttp_call list" where
  "cleanup request connect session =
     (if request then [WinHttpCloseHandle hRequest] else []) @
     (if connect then [WinHttpCloseHandle hConnect] else []) @
     (if session then [WinHttpCloseHandle hSession] else [])"

definition set_timeouts :: "winhttp_call list" where
  "set_timeouts =
     [WinHttpSetOption WINHTTP_OPTION_CONNECT_TIMEOUT 500,
      WinHttpSetOption WINHTTP_OPTION_SEND_TIMEOUT 500,
      WinHttpSetOption WINHTTP_OPTION_RECEIVE_TIMEOUT 500]"

text \<open>
  The result and the WinHTTP calls made, in order. \<open>(INTERNET_PORT)port\<close> narrows the
  \<open>int\<close> to 16 bits.
\<close>

definition IsAppRunning :: "int \<Rightarrow> winhttp \<Rightarrow> bool \<times> winhttp_call list" where
  "IsAppRunning port net =
     (if \<not> WinHttpOpen_ok net then (False, [WinHttpOpen] @ cleanup False False False)
      else if \<not> WinHttpConnect_ok net (word_of_int port)
      then (False, [WinHttpOpen] @ set_timeouts @ [WinHttpConnect (word_of_int port)] @
                   cleanup False False True)
      else if \<not> WinHttpOpenRequest_ok net
      then (False, [WinHttpOpen] @ set_timeouts @ [WinHttpConnect (word_of_int port)] @
                   [WinHttpOpenRequest] @ cleanup False True True)
      else if WinHttpSendRequest_ok net
      then (if WinHttpReceiveResponse_ok net
            then (True, [WinHttpOpen] @ set_timeouts @ [WinHttpConnect (word_of_int port)] @
                        [WinHttpOpenRequest, WinHttpSendRequest, WinHttpReceiveResponse] @
                        cleanup True True True)
            else (False, [WinHttpOpen] @ set_timeouts @ [WinHttpConnect (word_of_int port)] @
                         [WinHttpOpenRequest, WinHttpSendRequest, WinHttpReceiveResponse] @
                         cleanup True True True))
      else (False, [WinHttpOpen] @ set_timeouts @ [WinHttpConnect (word_of_int port)] @
                   [WinHttpOpenRequest, WinHttpSendRequest] @ cleanup True True True))"

subsection \<open>The file system as the launcher sees it\<close>

record WIN32_FIND_DATAW =
  dwFileAttributes :: "32 word"
  cFileName :: string

definition FILE_ATTRIBUTE_DIRECTORY :: "32 word" where
  "FILE_ATTRIBUTE_DIRECTORY = 0x10"

definition FILE_ATTRIBUTE_NORMAL :: "32 word" where
  "FILE_ATTRIBUTE_NORMAL = 0x80"

text \<open>
  \<^item> \<open>files\<close>: the text of each regular file, as a text-mode stream delivers it;
  \<^item> \<open>dirs\<close>: the entries of each directory, in the order in which the file system
    enumerates them;
  \<^item> \<open>read_denied\<close>, \<open>write_denied\<close>: the paths that \<open>_wfopen_s\<close> cannot open in mode
    \<open>"r"\<close>, respectively \<open>"w"\<close> (access rights, a read-only attribute, a missing parent).
\<close>

record filesystem =
  files :: "string \<rightharpoonup> string"
  dirs :: "string \<rightharpoonup> WIN32_FIND_DATAW list"
  read_denied :: "string \<Rightarrow> bool"
  write_denied :: "string \<Rightarrow> bool"

text \<open>The part of a path before its last backslash, and the part after it.\<close>

definition path_dir :: "string \<Rightarrow> string" where
  "path_dir p = rev (drop 1 (dropWhile (\<lambda>c. c \<noteq> BS) (rev p)))"

definition path_leaf :: "string \<Rightarrow> string" where
  "path_leaf p = rev (takeWhile (\<lambda>c. c \<noteq> BS) (rev p))"

text \<open>
  File-name matching of \<open>FindFirstFileW\<close>: \<open>*\<close> stands for any run of characters, \<open>?\<close> for
  one, and letters match without regard to case.
\<close>

fun wild_match :: "string \<Rightarrow> string \<Rightarrow> bool" where
  "wild_match [] s = (s = [])"
| "wild_match (p # ps) [] = (p = CHR ''*'' \<and> wild_match ps [])"
| "wild_match (p # ps) (c # cs) =
     (if p = CHR ''*'' then wild_match ps (c # cs) \<or> wild_match (p # ps) cs
      else (p = CHR ''?'' \<or> towlower p = towlower c) \<and> wild_match ps cs)"

text \<open>
  What \<open>FindFirstFileW\<close> and the \<open>FindNextFileW\<close> calls after it deliver for a search
  path: the matching entries of the directory, in its order. The empty list stands for
  \<open>INVALID_HANDLE_VALUE\<close> (no directory, or nothing matches).
\<close>

definition FindFiles :: "filesystem \<Rightarrow> string \<Rightarrow> WIN32_FIND_DATAW list" where
  "FindFiles fsys searchPath =
     (case dirs fsys (path_dir searchPath) of
        None \<Rightarrow> []
      | Some entries \<Rightarrow>
          filter (\<lambda>e. wild_match (path_leaf searchPath) (cFileName e)) entries)"

text \<open>\<open>GetFileAttributesW\<close>; \<open>None\<close> stands for \<open>INVALID_FILE_ATTRIBUTES\<close>.\<close>

definition GetFileAttributesW :: "filesystem \<Rightarrow> string \<Rightarrow> 32 word option" where
  "GetFileAttributesW fsys p =
     (case files fsys p of
        Some _ \<Rightarrow> Some FILE_ATTRIBUTE_NORMAL
      | None \<Rightarrow> (case dirs fsys p of
                   Some _ \<Rightarrow> Some FILE_ATTRIBUTE_DIRECTORY
                 | None \<Rightarrow> None))"

subsection \<open>The runtime locator: \<open>FindPythonDir\<close>\<close>

text \<open>
  The \<open>do ... while (FindNextFileW(...))\<close> loop over the entries found. The \<open>size\<close>
  parameter of \<open>FindPythonDir\<close> is never used: the result is formatted into the caller's
  array of \<open>MAX_PATH\<close> characters whatever its length.
\<close>

fun find_loop :: "string \<Rightarrow> WIN32_FIND_DATAW list \<Rightarrow> fault + string option" where
  "find_loop baseDir [] = Inr None"
| "find_loop baseDir (findData # others) =
     (if dwFileAttributes findData AND FILE_ATTRIBUTE_DIRECTORY \<noteq> 0 \<and>
         wcsncmp_eq (cFileName findData) ''cpython-'' 8
      then (case wsprintfW MAX_PATH (baseDir @ BS # ''.uv-python'' @ BS # cFileName findData) of
              Inl e \<Rightarrow> Inl e
            | Inr outPythonDir \<Rightarrow> Inr (Some outPythonDir))
      else find_loop baseDir others)"

definition FindPythonDir :: "string \<Rightarrow> filesystem \<Rightarrow> fault + string option" where
  "FindPythonDir baseDir fsys =
     (case wsprintfW MAX_PATH (baseDir @ BS # ''.uv-python'' @ BS # ''cpython-*'') of
        Inl e \<Rightarrow> Inl e
      | Inr searchPath \<Rightarrow> find_loop baseDir (FindFiles fsys searchPath))"

subsection \<open>Config repair: \<open>FixPyvenvCfg\<close>\<close>

text \<open>
  \<open>fgetws(line, n, file)\<close> stores at most \<open>n - 1\<close> characters and stops after a newline,
  which it stores. \<open>room\<close> is the number of characters that may still be stored; the
  result is the characters stored and the rest of the stream. Nothing stored is the NULL
  return at end of file.
\<close>

fun fgetws :: "nat \<Rightarrow> string \<Rightarrow> string \<times> string" where
  "fgetws room [] = ([], [])"
| "fgetws room (c # cs) =
     (if room = 0 then ([], c # cs)
      else if c = NL then ([c], cs)
      else (case fgetws (room - 1) cs of (stored, rest) \<Rightarrow> (c # stored, rest)))"

text \<open>
  \<open>nl = wcschr(line, L'\n'); if (nl) *nl = L'\0';\<close> and then \<open>line\<close> read as a
  zero-terminated string.
\<close>

definition strip_newline :: "string \<Rightarrow> string" where
  "strip_newline buf = takeWhile (\<lambda>c. c \<noteq> NL) (c_str buf)"

lemma fgetws_rest_le: "length (snd (fgetws room s)) \<le> length s"
proof (induction s arbitrary: room)
  case Nil
  show ?case by simp
next
  case (Cons c cs)
  have "length (snd (fgetws (room - 1) cs)) \<le> length cs" by (rule Cons.IH)
  then show ?case by (simp split: prod.splits) (metis le_SucI snd_conv)
qed

lemma fgetws_shrinks:
  assumes "(buf, rest) = fgetws room (c # cs)" and "0 < room"
  shows "length rest < Suc (length cs)"
proof -
  have "rest = snd (fgetws room (c # cs))"
    using assms(1) by (metis snd_conv)
  moreover have "length (snd (fgetws (room - 1) cs)) \<le> length cs"
    by (rule fgetws_rest_le)
  ultimately show ?thesis
    using assms(2) by (auto split: prod.splits)
qed

text \<open>
  The \<open>while (fgetws(line, 1024, file))\<close> loop. \<open>version\<close> is the 256-character array,
  overwritten by every line that begins with "version" in any letter case.
\<close>

function read_version :: "string \<Rightarrow> string \<Rightarrow> fault + string" where
  "read_version version [] = Inr version"
| "read_version version (c # cs) =
     (case fgetws (1024 - 1) (c # cs) of
        (buf, rest) \<Rightarrow>
          (let line = strip_newline buf
           in if wcsnicmp_eq line ''version'' 7
              then (case wcscpy_s 256 line of
                      Inl e \<Rightarrow> Inl e
                    | Inr copied \<Rightarrow> read_version copied rest)
              else read_version version rest))"
  by pat_completeness auto
termination
  by (relation "measure (\<lambda>(version, stream). length stream)")
     (auto simp del: fgetws.simps dest: fgetws_shrinks)

declare read_version.simps [simp del]

text \<open>\<open>_wfopen_s(&file, path, L"r") == 0 && file\<close>: the text of the file, if it opens.\<close>

definition fopen_r :: "filesystem \<Rightarrow> string \<Rightarrow> string option" where
  "fopen_r fsys p = (if read_denied fsys p then None else files fsys p)"

text \<open>
  The function returns its BOOL and the file system it leaves. Opening in mode \<open>"w"\<close>
  truncates the file; the three \<open>fwprintf\<close> calls then write the new text.
\<close>

definition FixPyvenvCfg :: "string \<Rightarrow> string \<Rightarrow> filesystem \<Rightarrow> fault + (bool \<times> filesystem)" where
  "FixPyvenvCfg venvDir pythonDir fsys =
     (case wsprintfW MAX_PATH (venvDir @ BS # ''pyvenv.cfg'') of
        Inl e \<Rightarrow> Inl e
      | Inr cfgPath \<Rightarrow>
          (case (case fopen_r fsys cfgPath of
                   None \<Rightarrow> Inr []
                 | Some stream \<Rightarrow> read_version [] stream) of
             Inl e \<Rightarrow> Inl e
           | Inr version \<Rightarrow>
               if write_denied fsys cfgPath then Inr (False, fsys)
               else Inr (True,
                      fsys\<lparr>files := (files fsys)(cfgPath \<mapsto>
                        ''home = '' @ pythonDir @ [NL] @
                        ''include-system-site-packages = false'' @ [NL] @
                        (if version \<noteq> [] then version @ [NL] else []))\<rparr>)))"

text \<open>
  For the statements below: the successive contents of \<open>line\<close> that the loop sees (each
  after the newline is removed), the test the loop applies to them, the capacity test of
  \<open>wcscpy_s\<close>, and the lines of a file that pass the first test.
\<close>

function cfg_lines :: "string \<Rightarrow> string list" where
  "cfg_lines [] = []"
| "cfg_lines (c # cs) =
     (case fgetws (1024 - 1) (c # cs) of
        (buf, rest) \<Rightarrow> strip_newline buf # cfg_lines rest)"
  by pat_completeness auto
termination
  by (relation "measure length") (auto simp del: fgetws.simps dest: fgetws_shrinks)

declare cfg_lines.simps [simp del]

text \<open>
  The lines of a text in the ordinary sense: the runs of characters between newlines. A
  last line needs no newline after it.
\<close>

function file_lines :: "string \<Rightarrow> string list" where
  "file_lines [] = []"
| "file_lines (c # cs) =
     takeWhile (\<lambda>x. x \<noteq> NL) (c # cs) #
     file_lines (drop 1 (dropWhile (\<lambda>x. x \<noteq> NL) (c # cs)))"
  by pat_completeness auto
termination
proof (relation "measure length")
  show "wf (measure length)" by simp
next
  fix c :: char and cs :: string
  have "length (dropWhile (\<lambda>x. x \<noteq> NL) (c # cs)) \<le> length (c # cs)"
    by (rule length_dropWhile_le)
  then show "(drop 1 (dropWhile (\<lambda>x. x \<noteq> NL) (c # cs)), c # cs) \<in> measure length"
    by (cases "dropWhile (\<lambda>x. x \<noteq> NL) (c # cs)") simp_all
qed

declare file_lines.simps [simp del]

definition is_version_line :: "string \<Rightarrow> bool" where
  "is_version_line line = wcsnicmp_eq line ''version'' 7"

definition fits_version :: "string \<Rightarrow> bool" where
  "fits_version line = (length line < 256)"

definition version_lines :: "filesystem \<Rightarrow> string \<Rightarrow> string list" where
  "version_lines fsys cfgPath =
     (case fopen_r fsys cfgPath of
        None \<Rightarrow> []
      | Some stream \<Rightarrow> filter is_version_line (cfg_lines stream))"

text \<open>
  The text of a file that consists of the \<open>home\<close> line, the fixed flag line and the lines
  \<open>extra\<close>, each ended by a newline; and the choice among several version lines that the
  overwriting loop makes.
\<close>

definition cfg_text :: "string \<Rightarrow> string list \<Rightarrow> string" where
  "cfg_text runtimeDir extra =
     concat (map (\<lambda>l. l @ [NL])
       ([''home = '' @ runtimeDir, ''include-system-site-packages = false''] @ extra))"

definition captured :: "string list \<Rightarrow> string list" where
  "captured vs = (case vs of [] \<Rightarrow> [] | l # ls \<Rightarrow> [last (l # ls)])"

text \<open>
  The entries the locator is looking for: directories whose name begins with
  \<open>cpython-\<close>, in the letter case written. \<open>runtime_candidates\<close> lists those of the
  runtime-cache directory of an installation, in the order of enumeration.
\<close>

definition is_runtime_dir :: "WIN32_FIND_DATAW \<Rightarrow> bool" where
  "is_runtime_dir e =
     (dwFileAttributes e AND FILE_ATTRIBUTE_DIRECTORY \<noteq> 0 \<and> take 8 (cFileName e) = ''cpython-'')"

definition runtime_candidates :: "filesystem \<Rightarrow> string \<Rightarrow> WIN32_FIND_DATAW list" where
  "runtime_candidates fsys baseDir =
     (case dirs fsys (baseDir @ BS # ''.uv-python'') of
        None \<Rightarrow> []
      | Some entries \<Rightarrow> filter is_runtime_dir entries)"

subsection \<open>Environment composition: \<open>SetupEnvironment\<close>\<close>

type_synonym environment = "string \<rightharpoonup> string"

text \<open>
  \<open>GetEnvironmentVariableW(name, buf, size)\<close>: what \<open>buf\<close> holds afterwards. The value is
  stored when it fits with its terminator. When the variable does not exist, or does
  not fit, the call reports that through its return value and stores nothing, so the
  buffer keeps what it held. \<open>SetupEnvironment\<close> ignores the return value.
\<close>

definition GetEnvironmentVariableW :: "environment \<Rightarrow> string \<Rightarrow> string \<Rightarrow> nat \<Rightarrow> string" where
  "GetEnvironmentVariableW envt name buf cap =
     (case envt name of
        None \<Rightarrow> buf
      | Some v \<Rightarrow> if length v < cap then v else buf)"

definition SetEnvironmentVariableW :: "string \<Rightarrow> string \<Rightarrow> environment \<Rightarrow> environment" where
  "SetEnvironmentVariableW name v envt = envt(name \<mapsto> v)"

text \<open>
  \<open>oldPath0\<close> is what the automatic array \<open>oldPath\<close> holds on entry. The array has no
  initialiser, so this is whatever the stack held; \<open>%s\<close> reads it up to the first zero.
\<close>

definition SetupEnvironment ::
  "string \<Rightarrow> string \<Rightarrow> string \<Rightarrow> string \<Rightarrow> environment \<Rightarrow> fault + environment" where
  "SetupEnvironment baseDir venvDir pythonDir oldPath0 envt =
     (let env1 = SetEnvironmentVariableW ''VIRTUAL_ENV'' venvDir envt
      in case wsprintfW MAX_PATH (baseDir @ BS # ''.playwright-browsers'') of
           Inl e \<Rightarrow> Inl e
         | Inr playwrightPath \<Rightarrow>
             (let env2 = SetEnvironmentVariableW ''PLAYWRIGHT_BROWSERS_PATH'' playwrightPath env1;
                  oldPath = c_str (GetEnvironmentVariableW env2 ''PATH'' oldPath0 MAX_ENV_SIZE)
              in case wsprintfW MAX_ENV_SIZE
                        (venvDir @ BS # ''Scripts;'' @ pythonDir @ '';'' @
                         pythonDir @ BS # ''Scripts;'' @ oldPath) of
                   Inl e \<Rightarrow> Inl e
                 | Inr newPath \<Rightarrow> Inr (SetEnvironmentVariableW ''PATH'' newPath env2)))"

text \<open>The search path that the format string describes, for a prior value \<open>P\<close>.\<close>

definition composed_path :: "string \<Rightarrow> string \<Rightarrow> string \<Rightarrow> string" where
  "composed_path V R P = V @ BS # ''Scripts;'' @ R @ '';'' @ R @ BS # ''Scripts;'' @ P"

text \<open>The value of the search-path variable in a result of \<open>SetupEnvironment\<close>.\<close>

definition path_after :: "fault + environment \<Rightarrow> string option" where
  "path_after r = (case r of Inl e \<Rightarrow> None | Inr envt \<Rightarrow> envt ''PATH'')"

subsection \<open>The orchestrator: \<open>WinMain\<close>\<close>

definition MB_OK :: "32 word" where "MB_OK = 0x0"
definition MB_ICONERROR :: "32 word" where "MB_ICONERROR = 0x10"
definition MB_ICONINFORMATION :: "32 word" where "MB_ICONINFORMATION = 0x40"
definition DETACHED_PROCESS :: "32 word" where "DETACHED_PROCESS = 0x8"
definition CREATE_NO_WINDOW :: "32 word" where "CREATE_NO_WINDOW = 0x08000000"
definition STARTF_USESHOWWINDOW :: "32 word" where "STARTF_USESHOWWINDOW = 0x1"
definition SW_HIDE :: "16 word" where "SW_HIDE = 0"

record process =
  lpCommandLine :: string
  lpCurrentDirectory :: string
  dwCreationFlags :: "32 word"
  dwFlags :: "32 word"
  wShowWindow :: "16 word"
  lpEnvironment :: environment

text \<open>
  Everything outside the program that \<open>WinMain\<close> reads or changes:
  \<^item> \<open>module_file_name\<close>: the full path of the running executable;
  \<^item> \<open>network\<close>: how the WinHTTP stages would go; \<open>winhttp_calls\<close>: the calls made;
  \<^item> \<open>disk\<close>: the file system; \<open>environ\<close>: the environment block of the process;
  \<^item> \<open>oldPath_residue\<close>: what the stack holds where \<open>SetupEnvironment\<close> places \<open>oldPath\<close>;
  \<^item> \<open>CreateProcessW_ok\<close>: whether the system can start the child;
  \<^item> \<open>message_boxes\<close>: the dialogs shown (text, caption, type), in order;
  \<^item> \<open>children\<close>: the processes started; \<open>open_handles\<close>: their handles not yet closed.
\<close>

record world =
  module_file_name :: string
  network :: winhttp
  winhttp_calls :: "winhttp_call list"
  disk :: filesystem
  environ :: environment
  oldPath_residue :: string
  CreateProcessW_ok :: bool
  message_boxes :: "(string \<times> string \<times> 32 word) list"
  children :: "process list"
  open_handles :: nat

text \<open>
  \<open>GetModuleFileNameW(NULL, buf, size)\<close> stores at most \<open>size - 1\<close> characters of the path.
\<close>

definition GetModuleFileNameW :: "world \<Rightarrow> nat \<Rightarrow> string" where
  "GetModuleFileNameW w cap = take (cap - 1) (module_file_name w)"

text \<open>
  \<open>PathRemoveFileSpecW\<close> removes the trailing file name and the backslash before it; the
  backslash that ends a drive root stays.
\<close>

definition PathRemoveFileSpecW :: "string \<Rightarrow> string" where
  "PathRemoveFileSpecW p =
     (if BS \<in> set p
      then (let d = path_dir p in if d = [] \<or> last d = CHR '':'' then d @ [BS] else d)
      else p)"

definition MessageBoxW :: "string \<Rightarrow> string \<Rightarrow> 32 word \<Rightarrow> world \<Rightarrow> world" where
  "MessageBoxW msg caption utype w =
     w\<lparr>message_boxes := message_boxes w @ [(msg, caption, utype)]\<rparr>"

definition ShowError :: "string \<Rightarrow> world \<Rightarrow> world" where
  "ShowError msg w = MessageBoxW msg ''YakuLingo - Error'' (MB_ICONERROR OR MB_OK) w"

definition CreateProcessW ::
  "string \<Rightarrow> 32 word \<Rightarrow> string \<Rightarrow> 32 word \<Rightarrow> 16 word \<Rightarrow> world \<Rightarrow> bool \<times> world" where
  "CreateProcessW cmdLine creation cwd flags showcmd w =
     (if CreateProcessW_ok w
      then (True, w\<lparr>children := children w @
                       [\<lparr>lpCommandLine = cmdLine, lpCurrentDirectory = cwd,
                         dwCreationFlags = creation, dwFlags = flags, wShowWindow = showcmd,
                         lpEnvironment = environ w\<rparr>],
                     open_handles := open_handles w + 2\<rparr>)
      else (False, w))"

definition CloseHandle :: "world \<Rightarrow> world" where
  "CloseHandle w = w\<lparr>open_handles := open_handles w - 1\<rparr>"

text \<open>
  The last part of \<open>WinMain\<close>, from "Setup environment variables" to the end: compose the
  environment, build the command line, start the child, close its two handles.
\<close>

definition launch :: "string \<Rightarrow> string \<Rightarrow> string \<Rightarrow> string \<Rightarrow> world \<Rightarrow> fault + (int \<times> world)" where
  "launch baseDir venvDir pythonDir pythonExe w =
     (case SetupEnvironment baseDir venvDir pythonDir (oldPath_residue w) (environ w) of
        Inl e \<Rightarrow> Inl e
      | Inr env' \<Rightarrow>
          (case wsprintfW MAX_PATH (baseDir @ BS # ''app.py'') of
             Inl e \<Rightarrow> Inl e
           | Inr appScript \<Rightarrow>
               (case wsprintfW (MAX_PATH * 2)
                        ([DQ] @ pythonExe @ [DQ] @ '' '' @ [DQ] @ appScript @ [DQ]) of
                  Inl e \<Rightarrow> Inl e
                | Inr cmdLine \<Rightarrow>
                    (case CreateProcessW cmdLine (CREATE_NO_WINDOW OR DETACHED_PROCESS) baseDir
                            STARTF_USESHOWWINDOW SW_HIDE (w\<lparr>environ := env'\<rparr>) of
                       (success, w') \<Rightarrow>
                         if \<not> success
                         then Inr (1, ShowError (''Failed to start application.'' @ [NL, NL] @
                                                 ''Please check your installation.'') w')
                         else Inr (0, CloseHandle (CloseHandle w'))))))"

text \<open>
  \<open>WinMain\<close> returns the exit code and the world it leaves. The BOOL of \<open>FixPyvenvCfg\<close> is
  not looked at; only the file system it leaves is carried on.
\<close>

definition WinMain :: "world \<Rightarrow> fault + (int \<times> world)" where
  "WinMain w =
     (case wcscpy_s MAX_PATH (GetModuleFileNameW w MAX_PATH) of
        Inl e \<Rightarrow> Inl e
      | Inr exeCopy \<Rightarrow>
          (let baseDir = PathRemoveFileSpecW exeCopy;
               probe = IsAppRunning APP_PORT (network w);
               w1 = w\<lparr>winhttp_calls := winhttp_calls w @ snd probe\<rparr>
           in if fst probe
              then Inr (0, MessageBoxW ''YakuLingo is already running.'' ''YakuLingo''
                             (MB_ICONINFORMATION OR MB_OK) w1)
              else (case FindPythonDir baseDir (disk w1) of
                      Inl e \<Rightarrow> Inl e
                    | Inr None \<Rightarrow>
                        Inr (1, ShowError (''Python not found in .uv-python directory.'' @
                                           [NL, NL] @ ''Please reinstall the application.'') w1)
                    | Inr (Some pythonDir) \<Rightarrow>
                        (case wsprintfW MAX_PATH (baseDir @ BS # ''.venv'') of
                           Inl e \<Rightarrow> Inl e
                         | Inr venvDir \<Rightarrow>
                             (case wsprintfW MAX_PATH
                                     (venvDir @ BS # ''Scripts'' @ BS # ''pythonw.exe'') of
                                Inl e \<Rightarrow> Inl e
                              | Inr pythonExe \<Rightarrow>
                                  if GetFileAttributesW (disk w1) pythonExe = None
                                  then Inr (1, ShowError (''.venv not found.'' @ [NL, NL] @
                                                 ''Please reinstall the application.'') w1)
                                  else (case FixPyvenvCfg venvDir pythonDir (disk w1) of
                                          Inl e \<Rightarrow> Inl e
                                        | Inr (fixed, disk') \<Rightarrow>
                                            launch baseDir venvDir pythonDir pythonExe
                                              (w1\<lparr>disk := disk'\<rparr>)))))))"

text \<open>The directory of the executable, as \<open>WinMain\<close> computes it.\<close>

definition install_root :: "world \<Rightarrow> string" where
  "install_root w = PathRemoveFileSpecW (GetModuleFileNameW w MAX_PATH)"

text \<open>A dialog of the error kind (\<open>MB_ICONERROR\<close> set in its type).\<close>

definition is_error_box :: "string \<times> string \<times> 32 word \<Rightarrow> bool" where
  "is_error_box box = (snd (snd box) AND MB_ICONERROR \<noteq> 0)"

subsection \<open>An installation to run the program on\<close>

text \<open>
  The bundle of the end-to-end scenario, installed in the directory YakuLingo of drive C:
  the runtime directory \<open>cpython-3.11.5\<close> in \<open>.uv-python\<close>, the interpreter
  \<open>pythonw.exe\<close> in the \<open>Scripts\<close> directory of \<open>.venv\<close>, \<open>app.py\<close>, and a \<open>pyvenv.cfg\<close>
  in \<open>.venv\<close>, whose text is a parameter.
\<close>

definition ex_root :: string where
  "ex_root = ''C:'' @ BS # ''YakuLingo''"

definition ex_venv :: string where
  "ex_venv = ex_root @ BS # ''.venv''"

definition ex_cfg :: string where
  "ex_cfg = ex_venv @ BS # ''pyvenv.cfg''"

definition ex_runtime :: string where
  "ex_runtime = ex_root @ BS # ''.uv-python'' @ BS # ''cpython-3.11.5''"

definition ex_cfg_text :: string where
  "ex_cfg_text =
     ''home = D:'' @ BS # ''stale'' @ [NL] @
     ''include-system-site-packages = false'' @ [NL] @
     ''version = 3.11.5'' @ [NL]"

definition ex_entries :: "WIN32_FIND_DATAW list" where
  "ex_entries =
     [\<lparr>dwFileAttributes = 0x20, cFileName = ''cpython-notes.txt''\<rparr>,
      \<lparr>dwFileAttributes = 0x10, cFileName = ''CPython-old''\<rparr>,
      \<lparr>dwFileAttributes = 0x10, cFileName = ''cpython-3.11.5''\<rparr>]"

definition ex_disk :: "string \<Rightarrow> filesystem" where
  "ex_disk cfg =
     \<lparr>files = [ex_cfg \<mapsto> cfg,
               ex_venv @ BS # ''Scripts'' @ BS # ''pythonw.exe'' \<mapsto> ''MZ'',
               ex_root @ BS # ''app.py'' \<mapsto> ''import yakulingo''],
      dirs = [ex_root @ BS # ''.uv-python'' \<mapsto> ex_entries],
      read_denied = (\<lambda>p. False),
      write_denied = (\<lambda>p. False)\<rparr>"

text \<open>
  More config texts: version lines of 256 and of 255 characters, a file with no version
  line, and files with two version lines.
\<close>

definition ex_long_version :: string where
  "ex_long_version = ''version = '' @ replicate 246 CHR ''7''"


definition ex_plain_cfg :: string where
  "ex_plain_cfg = ''home = old'' @ [NL]"

definition ex_upper_first :: string where
  "ex_upper_first = ''VERSION = 3.9'' @ NL # ex_cfg_text"

definition ex_two_versions :: string where
  "ex_two_versions = ''version = 3.10.0'' @ [NL] @ ''Version_info = 3.11.5.final.0'' @ [NL]"

text \<open>
  A text whose one line has 1034 characters and is no version line, though its last 11
  characters read \<open>version = 9\<close>; and the same line after a genuine version line.
\<close>

definition ex_overlong_line :: string where
  "ex_overlong_line = CHR ''x'' # replicate 1022 CHR ''x'' @ ''version = 9''"

definition ex_overlong_cfg :: string where
  "ex_overlong_cfg = ex_overlong_line @ [NL]"

definition ex_version_then_overlong :: string where
  "ex_version_then_overlong = ''version = 3.11'' @ NL # ex_overlong_cfg"

text \<open>
  An installation in a directory whose path has 239 characters, with one runtime
  directory; the executable's own path still fits \<open>MAX_PATH\<close>.
\<close>

definition ex_deep_root :: string where
  "ex_deep_root = ''C:'' @ BS # replicate 236 CHR ''d''"

definition ex_deep_disk :: filesystem where
  "ex_deep_disk =
     \<lparr>files = Map.empty,
      dirs = [ex_deep_root @ BS # ''.uv-python'' \<mapsto>
                [\<lparr>dwFileAttributes = 0x10, cFileName = ''cpython-3''\<rparr>]],
      read_denied = (\<lambda>p. False),
      write_denied = (\<lambda>p. False)\<rparr>"

definition no_listener :: winhttp where
  "no_listener =
     \<lparr>WinHttpOpen_ok = True, WinHttpConnect_ok = (\<lambda>p. True), WinHttpOpenRequest_ok = True,
      WinHttpSendRequest_ok = False, WinHttpReceiveResponse_ok = False\<rparr>"

definition listener :: winhttp where
  "listener =
     \<lparr>WinHttpOpen_ok = True, WinHttpConnect_ok = (\<lambda>p. True), WinHttpOpenRequest_ok = True,
      WinHttpSendRequest_ok = True, WinHttpReceiveResponse_ok = True\<rparr>"

definition ex_world :: "winhttp \<Rightarrow> filesystem \<Rightarrow> world" where
  "ex_world net fsys =
     \<lparr>module_file_name = ex_root @ BS # ''YakuLingo.exe'',
      network = net,
      winhttp_calls = [],
      disk = fsys,
      environ = [''PATH'' \<mapsto> ''C:'' @ BS # ''X''],
      oldPath_residue = [],
      CreateProcessW_ok = True,
      message_boxes = [],
      children = [],
      open_handles = 0\<rparr>"

section \<open>Properties\<close>

subsection \<open>The liveness probe\<close>

text \<open>
  Claim C4. \<open>IsAppRunning\<close> returns true exactly when the session opens, the connection
  handle is obtained, the request opens, the request is sent and a response is received;
  a failure at any of the five stages gives false. No stage is attempted twice: the calls
  the probe makes are pairwise distinct.
\<close>

theorem IsAppRunning_iff_all_stages:
  "fst (IsAppRunning port net) =
     (WinHttpOpen_ok net \<and> WinHttpConnect_ok net (word_of_int port) \<and>
      WinHttpOpenRequest_ok net \<and> WinHttpSendRequest_ok net \<and>
      WinHttpReceiveResponse_ok net)
   \<and> distinct (snd (IsAppRunning port net))"
  by (simp add: IsAppRunning_def cleanup_def set_timeouts_def)

subsection \<open>The runtime locator\<close>

lemma wild_match_star: "wild_match ''*'' s"
  by (induction s) simp_all

lemma wild_match_cpython: "take 8 s = ''cpython-'' \<Longrightarrow> wild_match ''cpython-*'' s"
proof -
  assume h: "take 8 s = ''cpython-''"
  have "s = ''cpython-'' @ drop 8 s"
    using append_take_drop_id [of 8 s] h by simp
  then obtain t where "s = ''cpython-'' @ t" ..
  then show ?thesis by (simp add: wild_match_star)
qed

lemma search_path_dir:
  "path_dir (baseDir @ BS # ''.uv-python'' @ BS # ''cpython-*'') = baseDir @ BS # ''.uv-python''"
  by (simp add: path_dir_def)

lemma search_path_leaf:
  "path_leaf (baseDir @ BS # ''.uv-python'' @ BS # ''cpython-*'') = ''cpython-*''"
  by (simp add: path_leaf_def)

lemma FindFiles_search:
  "FindFiles fsys (baseDir @ BS # ''.uv-python'' @ BS # ''cpython-*'') =
     (case dirs fsys (baseDir @ BS # ''.uv-python'') of
        None \<Rightarrow> []
      | Some entries \<Rightarrow> filter (\<lambda>e. wild_match ''cpython-*'' (cFileName e)) entries)"
  unfolding FindFiles_def search_path_dir search_path_leaf by (rule refl)

lemma find_loop_filter:
  "(\<And>e. e \<in> set es \<Longrightarrow> is_runtime_dir e \<Longrightarrow> P e) \<Longrightarrow>
   find_loop baseDir (filter P es) = find_loop baseDir es"
  by (induction es) (auto simp: is_runtime_dir_def wcsncmp_eq_def)

lemma find_loop_first:
  "find_loop baseDir es =
     (case filter is_runtime_dir es of
        [] \<Rightarrow> Inr None
      | e # _ \<Rightarrow> (case wsprintfW MAX_PATH (baseDir @ BS # ''.uv-python'' @ BS # cFileName e) of
                   Inl f \<Rightarrow> Inl f | Inr p \<Rightarrow> Inr (Some p)))"
  by (induction es) (auto simp: is_runtime_dir_def wcsncmp_eq_def)

text \<open>The locator returns the first candidate in the order of enumeration.\<close>

lemma FindPythonDir_first:
  assumes "length baseDir + 21 < MAX_PATH"
  shows "FindPythonDir baseDir fsys =
     (case runtime_candidates fsys baseDir of
        [] \<Rightarrow> Inr None
      | e # _ \<Rightarrow> (case wsprintfW MAX_PATH (baseDir @ BS # ''.uv-python'' @ BS # cFileName e) of
                   Inl f \<Rightarrow> Inl f | Inr p \<Rightarrow> Inr (Some p)))"
proof -
  have sp: "wsprintfW MAX_PATH (baseDir @ BS # ''.uv-python'' @ BS # ''cpython-*'') =
      Inr (baseDir @ BS # ''.uv-python'' @ BS # ''cpython-*'')"
    using assms by (simp add: wsprintfW_def MAX_PATH_def)
  show ?thesis
  proof (cases "dirs fsys (baseDir @ BS # ''.uv-python'')")
    case None
    then show ?thesis
      unfolding FindPythonDir_def sp sum.case FindFiles_search runtime_candidates_def by simp
  next
    case (Some entries)
    have "find_loop baseDir (filter (\<lambda>e. wild_match ''cpython-*'' (cFileName e)) entries) =
          find_loop baseDir entries"
      by (rule find_loop_filter) (simp add: is_runtime_dir_def wild_match_cpython)
    with Some show ?thesis
      unfolding FindPythonDir_def sp sum.case FindFiles_search runtime_candidates_def
      by (simp add: find_loop_first)
  qed
qed

lemma ex_candidates:
  "runtime_candidates (ex_disk cfg) ex_root =
     [\<lparr>dwFileAttributes = 0x10, cFileName = ''cpython-3.11.5''\<rparr>]"
  by (simp add: runtime_candidates_def ex_disk_def ex_root_def ex_entries_def
      is_runtime_dir_def FILE_ATTRIBUTE_DIRECTORY_def)

lemma ex_no_candidates:
  "runtime_candidates (ex_disk cfg\<lparr>dirs := Map.empty\<rparr>) ex_root = []"
  by (simp add: runtime_candidates_def)

text \<open>
  Where the composed paths fit the \<open>MAX_PATH\<close> arrays they are formatted into: when the
  runtime-cache directory holds no directory whose name begins with \<open>cpython-\<close> (or does
  not exist), \<open>FindPythonDir\<close> reports not-found; when it holds exactly one, the result is
  the full path of that entry.
\<close>

lemma FindPythonDir_one_or_none:
  assumes "length baseDir + 21 < MAX_PATH"
  shows "(runtime_candidates fsys baseDir = [] \<longrightarrow> FindPythonDir baseDir fsys = Inr None) \<and>
         (\<forall>e. runtime_candidates fsys baseDir = [e] \<and>
               length baseDir + 12 + length (cFileName e) < MAX_PATH \<longrightarrow>
               FindPythonDir baseDir fsys =
                 Inr (Some (baseDir @ BS # ''.uv-python'' @ BS # cFileName e)))"
  using assms by (auto simp: FindPythonDir_first wsprintfW_def MAX_PATH_def)

lemma FindPythonDir_example:
  "FindPythonDir ex_root (ex_disk ex_cfg_text) = Inr (Some ex_runtime) \<and>
   FindPythonDir ex_root (ex_disk ex_cfg_text\<lparr>dirs := Map.empty\<rparr>) = Inr None"
proof -
  have fit: "length ex_root + 21 < MAX_PATH"
    by (simp add: ex_root_def MAX_PATH_def)
  have "FindPythonDir ex_root (ex_disk ex_cfg_text) = Inr (Some ex_runtime)"
    using FindPythonDir_one_or_none [OF fit, of "ex_disk ex_cfg_text"] ex_candidates [of ex_cfg_text]
    by (simp add: ex_root_def ex_runtime_def MAX_PATH_def)
  moreover have "FindPythonDir ex_root (ex_disk ex_cfg_text\<lparr>dirs := Map.empty\<rparr>) = Inr None"
    using FindPythonDir_one_or_none [OF fit, of "ex_disk ex_cfg_text\<lparr>dirs := Map.empty\<rparr>"]
      ex_no_candidates [of ex_cfg_text]
    by simp
  ultimately show ?thesis by simp
qed

subsection \<open>Config repair\<close>

lemma cfg_lines_Cons:
  "fgetws (1024 - 1) (c # cs) = (buf, rest) \<Longrightarrow>
   cfg_lines (c # cs) = strip_newline buf # cfg_lines rest"
  by (simp add: cfg_lines.simps del: fgetws.simps)

lemma read_version_Cons:
  "fgetws (1024 - 1) (c # cs) = (buf, rest) \<Longrightarrow>
   read_version version (c # cs) =
     (if is_version_line (strip_newline buf)
      then (if fits_version (strip_newline buf)
            then read_version (strip_newline buf) rest else Inl InvalidParameter)
      else read_version version rest)"
  by (simp add: read_version.simps is_version_line_def fits_version_def wcscpy_s_def
      del: fgetws.simps)

text \<open>
  What the reading loop computes: a fault as soon as a version line does not fit the
  256-character array, otherwise the last version line (or the initial, empty array).
\<close>

lemma read_version_eq:
  "read_version version stream =
     (if list_all fits_version (filter is_version_line (cfg_lines stream))
      then Inr (last (version # filter is_version_line (cfg_lines stream)))
      else Inl InvalidParameter)"
proof (induction version stream rule: read_version.induct)
  case (1 version)
  show ?case by (simp add: read_version.simps cfg_lines.simps)
next
  case (2 version c cs)
  obtain buf rest where f: "fgetws (1024 - 1) (c # cs) = (buf, rest)"
    by (cases "fgetws (1024 - 1) (c # cs)")
  show ?case
  proof (cases "is_version_line (strip_newline buf)")
    case True
    then have m: "wcsnicmp_eq (strip_newline buf) ''version'' 7"
      by (simp add: is_version_line_def)
    show ?thesis
    proof (cases "fits_version (strip_newline buf)")
      case short: True
      have "read_version (strip_newline buf) rest =
          (if list_all fits_version (filter is_version_line (cfg_lines rest))
           then Inr (last (strip_newline buf # filter is_version_line (cfg_lines rest)))
           else Inl InvalidParameter)"
        using short by (intro "2.IH"(1) [OF f [symmetric] refl m])
          (simp add: wcscpy_s_def fits_version_def)
      then show ?thesis
        using True short by (simp add: read_version_Cons [OF f] cfg_lines_Cons [OF f])
    next
      case False
      then show ?thesis
        using True by (simp add: read_version_Cons [OF f] cfg_lines_Cons [OF f])
    qed
  next
    case False
    then have m: "\<not> wcsnicmp_eq (strip_newline buf) ''version'' 7"
      by (simp add: is_version_line_def)
    have "read_version version rest =
          (if list_all fits_version (filter is_version_line (cfg_lines rest))
           then Inr (last (version # filter is_version_line (cfg_lines rest)))
           else Inl InvalidParameter)"
      using "2.IH"(2) [OF f [symmetric] refl m] by simp
    then show ?thesis
      using False by (simp add: read_version_Cons [OF f] cfg_lines_Cons [OF f])
  qed
qed

lemma is_version_line_nonempty: "is_version_line l \<Longrightarrow> l \<noteq> []"
  by (auto simp: is_version_line_def wcsnicmp_eq_def)

lemma cfgPath_fits:
  "length venvDir + 11 < MAX_PATH \<Longrightarrow>
   wsprintfW MAX_PATH (venvDir @ BS # ''pyvenv.cfg'') = Inr (venvDir @ BS # ''pyvenv.cfg'')"
  by (simp add: wsprintfW_def MAX_PATH_def)

text \<open>The three outcomes of \<open>FixPyvenvCfg\<close> when the path of the config file fits.\<close>

lemma FixPyvenvCfg_eq:
  assumes "length venvDir + 11 < MAX_PATH"
  shows "FixPyvenvCfg venvDir pythonDir fsys =
     (if \<not> list_all fits_version (version_lines fsys (venvDir @ BS # ''pyvenv.cfg''))
      then Inl InvalidParameter
      else if write_denied fsys (venvDir @ BS # ''pyvenv.cfg'') then Inr (False, fsys)
      else Inr (True, fsys\<lparr>files := (files fsys)(venvDir @ BS # ''pyvenv.cfg'' \<mapsto>
             cfg_text pythonDir (captured (version_lines fsys (venvDir @ BS # ''pyvenv.cfg''))))\<rparr>))"
proof (cases "fopen_r fsys (venvDir @ BS # ''pyvenv.cfg'')")
  case None
  then show ?thesis
    unfolding FixPyvenvCfg_def cfgPath_fits [OF assms] sum.case version_lines_def
    by (simp add: cfg_text_def captured_def)
next
  case (Some stream)
  show ?thesis
  proof (cases "filter is_version_line (cfg_lines stream)")
    case Nil
    with Some show ?thesis
      unfolding FixPyvenvCfg_def cfgPath_fits [OF assms] sum.case version_lines_def
      by (simp add: read_version_eq cfg_text_def captured_def)
  next
    case (Cons l ls)
    have ne: "last (l # ls) \<noteq> []"
    proof
      assume e: "last (l # ls) = []"
      have "last (l # ls) \<in> set (filter is_version_line (cfg_lines stream))"
        unfolding Cons by (rule last_in_set) simp
      then have "is_version_line (last (l # ls))" by simp
      with e show False using is_version_line_nonempty by auto
    qed
    from Some Cons ne show ?thesis
      unfolding FixPyvenvCfg_def cfgPath_fits [OF assms] sum.case version_lines_def
      by (simp add: read_version_eq cfg_text_def captured_def)
  qed
qed

text \<open>A physical line that fits the line buffer is seen by the loop as it is.\<close>

lemma fgetws_line:
  "NL \<notin> set l \<Longrightarrow> length l < room \<Longrightarrow> fgetws room (l @ NL # rest) = (l @ [NL], rest)"
  by (induction l arbitrary: room) auto

lemma strip_newline_line:
  "NL \<notin> set l \<Longrightarrow> NUL \<notin> set l \<Longrightarrow> strip_newline (l @ [NL]) = l"
  by (simp add: strip_newline_def c_str_def takeWhile_append)

lemma cfg_lines_line:
  assumes "NL \<notin> set l" and "NUL \<notin> set l" and "length l < 1023"
  shows "cfg_lines (l @ NL # rest) = l # cfg_lines rest"
proof -
  obtain c cs where e: "l @ NL # rest = c # cs"
    by (cases "l @ NL # rest") auto
  have "fgetws (1024 - 1) (c # cs) = (l @ [NL], rest)"
    unfolding e [symmetric] using assms by (intro fgetws_line) simp_all
  then show ?thesis
    unfolding e using assms by (simp add: cfg_lines_Cons strip_newline_line)
qed

lemma cfg_lines_Nil: "cfg_lines [] = []"
  by (simp add: cfg_lines.simps)




lemma fits_version_eq: "fits_version = (\<lambda>l. length l < 256)"
  by (rule ext) (simp add: fits_version_def)

lemma ex_cfg_fits: "length ex_venv + 11 < MAX_PATH"
  by (simp add: ex_venv_def ex_root_def MAX_PATH_def)

lemma ex_fopen_r: "fopen_r (ex_disk cfg) (ex_venv @ BS # ''pyvenv.cfg'') = Some cfg"
  by (simp add: fopen_r_def ex_disk_def ex_cfg_def)

lemma ex_version_lines:
  "version_lines (ex_disk cfg) (ex_venv @ BS # ''pyvenv.cfg'') =
     filter is_version_line (cfg_lines cfg)"
  by (simp add: version_lines_def ex_fopen_r)

lemma ex_writable: "\<not> write_denied (ex_disk cfg) p"
  by (simp add: ex_disk_def)

lemma is_version_line_simps:
  "is_version_line (CHR ''v'' # CHR ''e'' # CHR ''r'' # CHR ''s'' # CHR ''i'' # CHR ''o'' # CHR ''n'' # t)"
  "is_version_line (CHR ''V'' # CHR ''e'' # CHR ''r'' # CHR ''s'' # CHR ''i'' # CHR ''o'' # CHR ''n'' # t)"
  "is_version_line (CHR ''V'' # CHR ''E'' # CHR ''R'' # CHR ''S'' # CHR ''I'' # CHR ''O'' # CHR ''N'' # t)"
  "\<not> is_version_line (CHR ''h'' # t)"
  "\<not> is_version_line (CHR ''i'' # t)"
  by (simp_all add: is_version_line_def wcsnicmp_eq_def towlower_def)

lemma ex_cfg_text_lines:
  "cfg_lines ex_cfg_text =
     [''home = D:'' @ BS # ''stale'', ''include-system-site-packages = false'',
      ''version = 3.11.5'']"
proof -
  have "cfg_lines ex_cfg_text =
      (''home = D:'' @ BS # ''stale'') #
      cfg_lines (''include-system-site-packages = false'' @ NL # ''version = 3.11.5'' @ NL # [])"
    unfolding ex_cfg_text_def
    using cfg_lines_line [of "''home = D:'' @ BS # ''stale''"] by simp
  also have "cfg_lines (''include-system-site-packages = false'' @ NL #
        ''version = 3.11.5'' @ NL # []) =
      ''include-system-site-packages = false'' # cfg_lines (''version = 3.11.5'' @ NL # [])"
    by (rule cfg_lines_line) simp_all
  also have "cfg_lines (''version = 3.11.5'' @ NL # []) = ''version = 3.11.5'' # cfg_lines []"
    by (rule cfg_lines_line) simp_all
  finally show ?thesis by (simp add: cfg_lines_Nil)
qed

lemma ex_two_versions_lines:
  "cfg_lines ex_two_versions = [''version = 3.10.0'', ''Version_info = 3.11.5.final.0'']"
proof -
  have "cfg_lines ex_two_versions =
      ''version = 3.10.0'' # cfg_lines (''Version_info = 3.11.5.final.0'' @ NL # [])"
    unfolding ex_two_versions_def
    using cfg_lines_line [of "''version = 3.10.0''"] by simp
  also have "cfg_lines (''Version_info = 3.11.5.final.0'' @ NL # []) =
      ''Version_info = 3.11.5.final.0'' # cfg_lines []"
    by (rule cfg_lines_line) simp_all
  finally show ?thesis by (simp add: cfg_lines_Nil)
qed

lemma ex_long_version_lines: "cfg_lines (ex_long_version @ [NL]) = [ex_long_version]"
  using cfg_lines_line [of ex_long_version "[]"]
  by (simp add: ex_long_version_def cfg_lines_Nil)

lemma ex_long_version_is_version: "is_version_line ex_long_version"
  by (simp add: ex_long_version_def is_version_line_simps)

lemma ex_long_version_length: "length ex_long_version = 256"
  by (simp add: ex_long_version_def)

text \<open>
  Lines of the file against lines of the loop. When every line of a text, with its
  newline, fits the line buffer and the text holds no zero character, the loop sees the
  lines of the text, one by one.
\<close>

lemma file_lines_Nil: "file_lines [] = []"
  by (simp add: file_lines.simps)

lemma takeWhile_absent: "a \<notin> set s \<Longrightarrow> takeWhile (\<lambda>x. x \<noteq> a) s = s"
  by (induction s) auto

lemma dropWhile_absent: "a \<notin> set s \<Longrightarrow> dropWhile (\<lambda>x. x \<noteq> a) s = []"
  by (induction s) auto

lemma file_lines_line:
  assumes "NL \<notin> set l"
  shows "file_lines (l @ NL # r) = l # file_lines r"
proof -
  obtain c cs where e: "l @ NL # r = c # cs"
    by (cases "l @ NL # r") auto
  have tw: "takeWhile (\<lambda>x. x \<noteq> NL) (l @ NL # r) = l"
    using assms by (induction l) auto
  have dw: "dropWhile (\<lambda>x. x \<noteq> NL) (l @ NL # r) = NL # r"
    using assms by (induction l) auto
  have "file_lines (l @ NL # r) =
      takeWhile (\<lambda>x. x \<noteq> NL) (l @ NL # r) #
      file_lines (drop 1 (dropWhile (\<lambda>x. x \<noteq> NL) (l @ NL # r)))"
    unfolding e by (rule file_lines.simps(2))
  then show ?thesis
    unfolding tw dw by simp
qed

lemma file_lines_last:
  assumes "NL \<notin> set s" and "s \<noteq> []"
  shows "file_lines s = [s]"
proof -
  obtain c cs where e: "s = c # cs"
    using assms(2) by (cases s) auto
  have "file_lines s =
      takeWhile (\<lambda>x. x \<noteq> NL) s # file_lines (drop 1 (dropWhile (\<lambda>x. x \<noteq> NL) s))"
    unfolding e by (rule file_lines.simps(2))
  then show ?thesis
    unfolding takeWhile_absent [OF assms(1)] dropWhile_absent [OF assms(1)]
    by (simp add: file_lines_Nil)
qed

lemma fgetws_all:
  "NL \<notin> set s \<Longrightarrow> length s \<le> room \<Longrightarrow> fgetws room s = (s, [])"
  by (induction s arbitrary: room) auto

lemma fgetws_full:
  "NL \<notin> set l \<Longrightarrow> length l = room \<Longrightarrow> fgetws room (l @ r) = (l, r)"
proof (induction l arbitrary: room)
  case Nil
  then show ?case by (cases r) simp_all
next
  case (Cons a l)
  then show ?case by auto
qed

lemma cfg_lines_last:
  assumes "NL \<notin> set s" and "NUL \<notin> set s" and "s \<noteq> []" and "length s < 1023"
  shows "cfg_lines s = [s]"
proof -
  obtain c cs where e: "s = c # cs"
    using assms(3) by (cases s) auto
  have "fgetws (1024 - 1) (c # cs) = (s, [])"
    unfolding e [symmetric] using assms(1,4) by (intro fgetws_all) simp_all
  moreover have "strip_newline s = s"
    unfolding strip_newline_def c_str_def
      takeWhile_absent [OF assms(2)] takeWhile_absent [OF assms(1)] by (rule refl)
  ultimately show ?thesis
    unfolding e by (simp add: cfg_lines_Cons cfg_lines_Nil)
qed

lemma cfg_lines_are_file_lines:
  assumes "NUL \<notin> set s" and "list_all (\<lambda>l. length l < 1023) (file_lines s)"
  shows "cfg_lines s = file_lines s"
  using assms
proof (induction "length s" arbitrary: s rule: less_induct)
  case less
  show ?case
  proof (cases "NL \<in> set s")
    case True
    then obtain l r where s: "s = l @ NL # r" and l: "NL \<notin> set l"
      by (meson split_list_first)
    have fl: "file_lines s = l # file_lines r"
      unfolding s using l by (rule file_lines_line)
    have "cfg_lines r = file_lines r"
      using less.prems fl by (intro less.hyps) (simp_all add: s)
    moreover have "cfg_lines s = l # cfg_lines r"
      unfolding s using l less.prems fl by (intro cfg_lines_line) (simp_all add: s)
    ultimately show ?thesis using fl by simp
  next
    case False
    show ?thesis
    proof (cases "s = []")
      case True
      then show ?thesis by (simp add: cfg_lines_Nil file_lines_Nil)
    next
      case ne: False
      have fl: "file_lines s = [s]"
        using False ne by (rule file_lines_last)
      then have "length s < 1023"
        using less.prems(2) by simp
      then have "cfg_lines s = [s]"
        using False less.prems(1) ne by (intro cfg_lines_last)
      then show ?thesis using fl by simp
    qed
  qed
qed

lemma version_lines_are_file_lines:
  assumes "fopen_r fsys p = Some stream" and "NUL \<notin> set stream"
      and "list_all (\<lambda>l. length l < 1023) (file_lines stream)"
  shows "version_lines fsys p = filter is_version_line (file_lines stream)"
  using assms by (simp add: version_lines_def cfg_lines_are_file_lines)

lemma cfg_lines_full:
  assumes "NL \<notin> set l" and "NUL \<notin> set l" and "length l = 1023" and "r \<noteq> []"
  shows "cfg_lines (l @ r) = l # cfg_lines r"
proof -
  obtain c cs where e: "l @ r = c # cs"
    using assms(4) by (cases "l @ r") auto
  have "fgetws (1024 - 1) (c # cs) = (l, r)"
    unfolding e [symmetric] using assms(1,3) by (intro fgetws_full) simp_all
  moreover have "strip_newline l = l"
    unfolding strip_newline_def c_str_def
      takeWhile_absent [OF assms(2)] takeWhile_absent [OF assms(1)] by (rule refl)
  ultimately show ?thesis
    unfolding e by (simp add: cfg_lines_Cons)
qed

lemma ex_cfg_text_file_lines:
  "file_lines ex_cfg_text =
     [''home = D:'' @ BS # ''stale'', ''include-system-site-packages = false'',
      ''version = 3.11.5'']"
proof -
  have "file_lines ex_cfg_text =
      (''home = D:'' @ BS # ''stale'') #
      file_lines (''include-system-site-packages = false'' @ NL # ''version = 3.11.5'' @ NL # [])"
    unfolding ex_cfg_text_def
    using file_lines_line [of "''home = D:'' @ BS # ''stale''"] by simp
  also have "file_lines (''include-system-site-packages = false'' @ NL #
        ''version = 3.11.5'' @ NL # []) =
      ''include-system-site-packages = false'' # file_lines (''version = 3.11.5'' @ NL # [])"
    by (rule file_lines_line) simp
  also have "file_lines (''version = 3.11.5'' @ NL # []) = ''version = 3.11.5'' # file_lines []"
    by (rule file_lines_line) simp
  finally show ?thesis by (simp add: file_lines_Nil)
qed

lemma ex_two_versions_file_lines:
  "file_lines ex_two_versions = [''version = 3.10.0'', ''Version_info = 3.11.5.final.0'']"
proof -
  have "file_lines ex_two_versions =
      ''version = 3.10.0'' # file_lines (''Version_info = 3.11.5.final.0'' @ NL # [])"
    unfolding ex_two_versions_def
    using file_lines_line [of "''version = 3.10.0''"] by simp
  also have "file_lines (''Version_info = 3.11.5.final.0'' @ NL # []) =
      ''Version_info = 3.11.5.final.0'' # file_lines []"
    by (rule file_lines_line) simp
  finally show ?thesis by (simp add: file_lines_Nil)
qed

lemma ex_long_version_file_lines: "file_lines (ex_long_version @ [NL]) = [ex_long_version]"
  using file_lines_line [of ex_long_version "[]"]
  by (simp add: ex_long_version_def file_lines_Nil)

lemma ex_overlong_line_props:
  "NL \<notin> set ex_overlong_line" "length ex_overlong_line = 1034"
  "\<not> is_version_line ex_overlong_line"
  by (simp_all add: ex_overlong_line_def is_version_line_def wcsnicmp_eq_def towlower_def)

lemma ex_overlong_file_lines: "file_lines ex_overlong_cfg = [ex_overlong_line]"
  unfolding ex_overlong_cfg_def
  using file_lines_line [OF ex_overlong_line_props(1), of "[]"]
  by (simp add: file_lines_Nil)

lemma ex_overlong_cfg_lines:
  "cfg_lines ex_overlong_cfg = [CHR ''x'' # replicate 1022 CHR ''x'', ''version = 9'']"
proof -
  have "cfg_lines ((CHR ''x'' # replicate 1022 CHR ''x'') @ (''version = 9'' @ [NL])) =
      (CHR ''x'' # replicate 1022 CHR ''x'') # cfg_lines (''version = 9'' @ [NL])"
    by (rule cfg_lines_full) simp_all
  moreover have "cfg_lines (''version = 9'' @ NL # []) = ''version = 9'' # cfg_lines []"
    by (rule cfg_lines_line) simp_all
  ultimately show ?thesis
    by (simp add: ex_overlong_cfg_def ex_overlong_line_def cfg_lines_Nil)
qed

lemma not_version_x: "\<not> is_version_line (CHR ''x'' # t)"
  by (simp add: is_version_line_def wcsnicmp_eq_def towlower_def)

text \<open>
  Claim C1, as amended. Let the path of the config file fit its array and let the file
  open for writing. If the config file cannot be opened for reading, \<open>FixPyvenvCfg\<close>
  succeeds and leaves a file of exactly the two fixed lines. If it can, and its text has
  no zero character, every line of it is shorter than 1023 characters, and every version
  line of it is shorter than 256 characters, then \<open>FixPyvenvCfg\<close> succeeds and leaves a
  file of exactly: the line \<open>home = <runtimeDir>\<close>, the line
  \<open>include-system-site-packages = false\<close>, and the captured version line as it stood in
  the file; with no version line in the file, only the two fixed lines.
\<close>

theorem FixPyvenvCfg_round_trip:
  assumes "length venvDir + 11 < MAX_PATH"
      and "\<not> write_denied fsys (venvDir @ BS # ''pyvenv.cfg'')"
  shows "(fopen_r fsys (venvDir @ BS # ''pyvenv.cfg'') = None \<longrightarrow>
            FixPyvenvCfg venvDir pythonDir fsys =
              Inr (True, fsys\<lparr>files := (files fsys)(venvDir @ BS # ''pyvenv.cfg'' \<mapsto>
                cfg_text pythonDir [])\<rparr>)) \<and>
         (\<forall>stream.
            fopen_r fsys (venvDir @ BS # ''pyvenv.cfg'') = Some stream \<and>
            NUL \<notin> set stream \<and>
            list_all (\<lambda>l. length l < 1023) (file_lines stream) \<and>
            list_all (\<lambda>l. length l < 256) (filter is_version_line (file_lines stream)) \<longrightarrow>
            FixPyvenvCfg venvDir pythonDir fsys =
              Inr (True, fsys\<lparr>files := (files fsys)(venvDir @ BS # ''pyvenv.cfg'' \<mapsto>
                cfg_text pythonDir (captured (filter is_version_line (file_lines stream))))\<rparr>) \<and>
            (filter is_version_line (file_lines stream) = [] \<longrightarrow>
               captured (filter is_version_line (file_lines stream)) = []) \<and>
            (filter is_version_line (file_lines stream) \<noteq> [] \<longrightarrow>
               (\<exists>v \<in> set (filter is_version_line (file_lines stream)).
                  captured (filter is_version_line (file_lines stream)) = [v])))"
proof (intro conjI impI allI)
  assume "fopen_r fsys (venvDir @ BS # ''pyvenv.cfg'') = None"
  then have "version_lines fsys (venvDir @ BS # ''pyvenv.cfg'') = []"
    by (simp add: version_lines_def)
  then show "FixPyvenvCfg venvDir pythonDir fsys =
      Inr (True, fsys\<lparr>files := (files fsys)(venvDir @ BS # ''pyvenv.cfg'' \<mapsto>
        cfg_text pythonDir [])\<rparr>)"
    using assms(2) by (simp add: FixPyvenvCfg_eq [OF assms(1)] captured_def)
next
  fix stream
  assume h: "fopen_r fsys (venvDir @ BS # ''pyvenv.cfg'') = Some stream \<and>
            NUL \<notin> set stream \<and>
            list_all (\<lambda>l. length l < 1023) (file_lines stream) \<and>
            list_all (\<lambda>l. length l < 256) (filter is_version_line (file_lines stream))"
  then have "version_lines fsys (venvDir @ BS # ''pyvenv.cfg'') =
      filter is_version_line (file_lines stream)"
    by (intro version_lines_are_file_lines) simp_all
  then show "FixPyvenvCfg venvDir pythonDir fsys =
      Inr (True, fsys\<lparr>files := (files fsys)(venvDir @ BS # ''pyvenv.cfg'' \<mapsto>
        cfg_text pythonDir (captured (filter is_version_line (file_lines stream))))\<rparr>)"
    using assms(2) h by (simp add: FixPyvenvCfg_eq [OF assms(1)] fits_version_eq)
next
  fix stream
  assume "filter is_version_line (file_lines stream) = []"
  then show "captured (filter is_version_line (file_lines stream)) = []"
    by (simp add: captured_def)
next
  fix stream
  assume "filter is_version_line (file_lines stream) \<noteq> []"
  then show "\<exists>v \<in> set (filter is_version_line (file_lines stream)).
      captured (filter is_version_line (file_lines stream)) = [v]"
    by (cases "filter is_version_line (file_lines stream)") (auto simp: captured_def)
qed

theorem FixPyvenvCfg_round_trip_witness:
  "FixPyvenvCfg ex_venv ex_runtime (ex_disk ex_cfg_text) =
     Inr (True, ex_disk ex_cfg_text\<lparr>files := (files (ex_disk ex_cfg_text))
       (ex_venv @ BS # ''pyvenv.cfg'' \<mapsto> cfg_text ex_runtime [''version = 3.11.5''])\<rparr>) \<and>
   FixPyvenvCfg ex_venv ex_runtime (ex_disk ex_plain_cfg) =
     Inr (True, ex_disk ex_plain_cfg\<lparr>files := (files (ex_disk ex_plain_cfg))
       (ex_venv @ BS # ''pyvenv.cfg'' \<mapsto> cfg_text ex_runtime [])\<rparr>) \<and>
   FixPyvenvCfg ex_venv ex_runtime (ex_disk []\<lparr>files := Map.empty\<rparr>) =
     Inr (True, ex_disk []\<lparr>files := [ex_venv @ BS # ''pyvenv.cfg'' \<mapsto> cfg_text ex_runtime []]\<rparr>)"
proof -
  have n1: "NUL \<notin> set ex_cfg_text"
    by (simp add: ex_cfg_text_def)
  have v1: "filter is_version_line (file_lines ex_cfg_text) = [''version = 3.11.5'']"
    by (simp add: ex_cfg_text_file_lines is_version_line_simps)
  have l1: "list_all (\<lambda>l. length l < 1023) (file_lines ex_cfg_text)"
    by (simp add: ex_cfg_text_file_lines)
  have f2: "file_lines ex_plain_cfg = [''home = old'']"
    using file_lines_line [of "''home = old''" "[]"] by (simp add: ex_plain_cfg_def file_lines_Nil)
  have n2: "NUL \<notin> set ex_plain_cfg"
    by (simp add: ex_plain_cfg_def)
  have v2: "filter is_version_line (file_lines ex_plain_cfg) = []"
    by (simp add: f2 is_version_line_simps)
  have l2: "list_all (\<lambda>l. length l < 1023) (file_lines ex_plain_cfg)"
    by (simp add: f2)
  have r3: "fopen_r (ex_disk []\<lparr>files := Map.empty\<rparr>) (ex_venv @ BS # ''pyvenv.cfg'') = None"
    by (simp add: fopen_r_def)
  have w3: "\<not> write_denied (ex_disk []\<lparr>files := Map.empty\<rparr>) (ex_venv @ BS # ''pyvenv.cfg'')"
    by (simp add: ex_disk_def)
  have "FixPyvenvCfg ex_venv ex_runtime (ex_disk ex_cfg_text) =
     Inr (True, ex_disk ex_cfg_text\<lparr>files := (files (ex_disk ex_cfg_text))
       (ex_venv @ BS # ''pyvenv.cfg'' \<mapsto> cfg_text ex_runtime [''version = 3.11.5''])\<rparr>)"
    using FixPyvenvCfg_round_trip [OF ex_cfg_fits ex_writable, of ex_cfg_text ex_runtime]
      ex_fopen_r [of ex_cfg_text] n1 l1
    by (simp add: v1 captured_def)
  moreover have "FixPyvenvCfg ex_venv ex_runtime (ex_disk ex_plain_cfg) =
     Inr (True, ex_disk ex_plain_cfg\<lparr>files := (files (ex_disk ex_plain_cfg))
       (ex_venv @ BS # ''pyvenv.cfg'' \<mapsto> cfg_text ex_runtime [])\<rparr>)"
    using FixPyvenvCfg_round_trip [OF ex_cfg_fits ex_writable, of ex_plain_cfg ex_runtime]
      ex_fopen_r [of ex_plain_cfg] n2 l2
    by (simp add: v2 captured_def)
  moreover have "FixPyvenvCfg ex_venv ex_runtime (ex_disk []\<lparr>files := Map.empty\<rparr>) =
     Inr (True, ex_disk []\<lparr>files := [ex_venv @ BS # ''pyvenv.cfg'' \<mapsto> cfg_text ex_runtime []]\<rparr>)"
    using FixPyvenvCfg_round_trip [OF ex_cfg_fits w3, of ex_runtime] r3
    by simp
  ultimately show ?thesis by simp
qed

text \<open>
  The claim as first stated fails in two ways. A config file whose one line is a version
  line of 256 characters is not rewritten at all: \<open>wcscpy_s\<close> refuses the copy and the run
  ends there. And a config file whose one line has 1034 characters and is no version
  line gets a third line all the same: the line buffer cuts the line after 1023
  characters, and what is left of it begins with \<open>version\<close>.
\<close>

theorem round_trip_fails_on_long_lines:
  "file_lines (ex_long_version @ [NL]) = [ex_long_version] \<and>
   is_version_line ex_long_version \<and>
   FixPyvenvCfg ex_venv ex_runtime (ex_disk (ex_long_version @ [NL])) = Inl InvalidParameter \<and>
   file_lines ex_overlong_cfg = [ex_overlong_line] \<and>
   \<not> is_version_line ex_overlong_line \<and>
   FixPyvenvCfg ex_venv ex_runtime (ex_disk ex_overlong_cfg) =
     Inr (True, ex_disk ex_overlong_cfg\<lparr>files := (files (ex_disk ex_overlong_cfg))
       (ex_venv @ BS # ''pyvenv.cfg'' \<mapsto> cfg_text ex_runtime [''version = 9''])\<rparr>)"
proof -
  have v: "version_lines (ex_disk (ex_long_version @ [NL])) (ex_venv @ BS # ''pyvenv.cfg'') =
     [ex_long_version]"
    by (simp add: ex_version_lines ex_long_version_lines ex_long_version_is_version)
  have a: "FixPyvenvCfg ex_venv ex_runtime (ex_disk (ex_long_version @ [NL])) =
      Inl InvalidParameter"
    by (simp add: FixPyvenvCfg_eq [OF ex_cfg_fits] v fits_version_def ex_long_version_length)
  have v': "version_lines (ex_disk ex_overlong_cfg) (ex_venv @ BS # ''pyvenv.cfg'') =
     [''version = 9'']"
    by (simp add: ex_version_lines ex_overlong_cfg_lines is_version_line_simps not_version_x)
  have b: "FixPyvenvCfg ex_venv ex_runtime (ex_disk ex_overlong_cfg) =
     Inr (True, ex_disk ex_overlong_cfg\<lparr>files := (files (ex_disk ex_overlong_cfg))
       (ex_venv @ BS # ''pyvenv.cfg'' \<mapsto> cfg_text ex_runtime [''version = 9''])\<rparr>)"
    by (simp add: FixPyvenvCfg_eq [OF ex_cfg_fits] v' fits_version_def captured_def ex_writable)
  show ?thesis
    using a b
    by (simp add: ex_long_version_file_lines ex_long_version_is_version
        ex_overlong_file_lines ex_overlong_line_props)
qed

text \<open>
  Claim C2, as amended. Under the conditions of C1 on the text of the config file, when
  its lines are \<open>before\<close>, then a version line \<open>v\<close>, then lines \<open>after\<close> none of which is a
  version line, the version line written back is \<open>v\<close>: of several version lines the loop
  keeps the last, since each one overwrites the array.
\<close>

theorem FixPyvenvCfg_keeps_last_version_line:
  assumes "length venvDir + 11 < MAX_PATH"
      and "\<not> write_denied fsys (venvDir @ BS # ''pyvenv.cfg'')"
      and "fopen_r fsys (venvDir @ BS # ''pyvenv.cfg'') = Some stream"
      and "NUL \<notin> set stream"
      and "list_all (\<lambda>l. length l < 1023) (file_lines stream)"
      and "file_lines stream = before @ v # after"
      and "is_version_line v"
      and "filter is_version_line after = []"
      and "list_all (\<lambda>l. length l < 256) (filter is_version_line (before @ [v]))"
  shows "FixPyvenvCfg venvDir pythonDir fsys =
           Inr (True, fsys\<lparr>files := (files fsys)(venvDir @ BS # ''pyvenv.cfg'' \<mapsto>
             cfg_text pythonDir [v])\<rparr>)"
proof -
  have "version_lines fsys (venvDir @ BS # ''pyvenv.cfg'') =
      filter is_version_line (file_lines stream)"
    using assms(3-5) by (rule version_lines_are_file_lines)
  then have vl: "version_lines fsys (venvDir @ BS # ''pyvenv.cfg'') =
      filter is_version_line before @ [v]"
    using assms(6-8) by simp
  have "captured (filter is_version_line before @ [v]) = [v]"
    by (cases "filter is_version_line before") (simp_all add: captured_def)
  then show ?thesis
    using assms(2,7,9) by (simp add: FixPyvenvCfg_eq [OF assms(1)] vl fits_version_eq)
qed

theorem FixPyvenvCfg_keeps_last_version_line_witness:
  "FixPyvenvCfg ex_venv ex_runtime (ex_disk ex_upper_first) =
     Inr (True, ex_disk ex_upper_first
       \<lparr>files := (files (ex_disk ex_upper_first))
          (ex_venv @ BS # ''pyvenv.cfg'' \<mapsto> cfg_text ex_runtime [''version = 3.11.5''])\<rparr>)"
proof -
  have l: "file_lines ex_upper_first =
      [''VERSION = 3.9'', ''home = D:'' @ BS # ''stale'',
       ''include-system-site-packages = false''] @ ''version = 3.11.5'' # []"
    using file_lines_line [of "''VERSION = 3.9''" ex_cfg_text]
    by (simp add: ex_upper_first_def ex_cfg_text_file_lines)
  have n: "NUL \<notin> set ex_upper_first"
    by (simp add: ex_upper_first_def ex_cfg_text_def)
  have b: "list_all (\<lambda>l. length l < 1023) (file_lines ex_upper_first)"
    by (simp add: l)
  show ?thesis
    using FixPyvenvCfg_keeps_last_version_line [OF ex_cfg_fits ex_writable ex_fopen_r n b l,
        of ex_runtime]
    by (simp add: is_version_line_simps)
qed

text \<open>
  The claim as first stated fails. Of the two version lines of the first file the first is
  \<open>version = 3.10.0\<close>, and the line written back is the second. The second file has one
  version line, \<open>version = 3.11\<close>, followed by a line of 1034 characters that is no
  version line; the line written back is \<open>version = 9\<close>, the end of that long line.
\<close>

theorem first_version_line_is_not_kept:
  "filter is_version_line (file_lines ex_two_versions) =
     [''version = 3.10.0'', ''Version_info = 3.11.5.final.0''] \<and>
   FixPyvenvCfg ex_venv ex_runtime (ex_disk ex_two_versions) =
     Inr (True, ex_disk ex_two_versions\<lparr>files := (files (ex_disk ex_two_versions))
       (ex_venv @ BS # ''pyvenv.cfg'' \<mapsto>
          cfg_text ex_runtime [''Version_info = 3.11.5.final.0''])\<rparr>) \<and>
   cfg_text ex_runtime [''Version_info = 3.11.5.final.0''] \<noteq>
     cfg_text ex_runtime [''version = 3.10.0''] \<and>
   filter is_version_line (file_lines ex_version_then_overlong) = [''version = 3.11''] \<and>
   FixPyvenvCfg ex_venv ex_runtime (ex_disk ex_version_then_overlong) =
     Inr (True, ex_disk ex_version_then_overlong
       \<lparr>files := (files (ex_disk ex_version_then_overlong))
          (ex_venv @ BS # ''pyvenv.cfg'' \<mapsto> cfg_text ex_runtime [''version = 9''])\<rparr>) \<and>
   cfg_text ex_runtime [''version = 9''] \<noteq> cfg_text ex_runtime [''version = 3.11'']"
proof -
  have v: "version_lines (ex_disk ex_two_versions) (ex_venv @ BS # ''pyvenv.cfg'') =
     [''version = 3.10.0'', ''Version_info = 3.11.5.final.0'']"
    by (simp add: ex_version_lines ex_two_versions_lines is_version_line_simps)
  have a: "FixPyvenvCfg ex_venv ex_runtime (ex_disk ex_two_versions) =
     Inr (True, ex_disk ex_two_versions\<lparr>files := (files (ex_disk ex_two_versions))
       (ex_venv @ BS # ''pyvenv.cfg'' \<mapsto>
          cfg_text ex_runtime [''Version_info = 3.11.5.final.0''])\<rparr>)"
    by (simp add: FixPyvenvCfg_eq [OF ex_cfg_fits] v fits_version_def captured_def ex_writable)
  have fa: "filter is_version_line (file_lines ex_two_versions) =
     [''version = 3.10.0'', ''Version_info = 3.11.5.final.0'']"
    by (simp add: ex_two_versions_file_lines is_version_line_simps)
  have "cfg_lines ex_version_then_overlong = ''version = 3.11'' # cfg_lines ex_overlong_cfg"
    unfolding ex_version_then_overlong_def by (rule cfg_lines_line) simp_all
  then have v': "version_lines (ex_disk ex_version_then_overlong) (ex_venv @ BS # ''pyvenv.cfg'') =
     [''version = 3.11'', ''version = 9'']"
    by (simp add: ex_version_lines ex_overlong_cfg_lines is_version_line_simps not_version_x)
  have b: "FixPyvenvCfg ex_venv ex_runtime (ex_disk ex_version_then_overlong) =
     Inr (True, ex_disk ex_version_then_overlong
       \<lparr>files := (files (ex_disk ex_version_then_overlong))
          (ex_venv @ BS # ''pyvenv.cfg'' \<mapsto> cfg_text ex_runtime [''version = 9''])\<rparr>)"
    by (simp add: FixPyvenvCfg_eq [OF ex_cfg_fits] v' fits_version_def captured_def ex_writable)
  have "file_lines ex_version_then_overlong = ''version = 3.11'' # file_lines ex_overlong_cfg"
    unfolding ex_version_then_overlong_def by (rule file_lines_line) simp
  then have fb: "filter is_version_line (file_lines ex_version_then_overlong) =
      [''version = 3.11'']"
    by (simp add: ex_overlong_file_lines ex_overlong_line_props is_version_line_simps)
  have ne: "cfg_text ex_runtime [''Version_info = 3.11.5.final.0''] \<noteq>
      cfg_text ex_runtime [''version = 3.10.0'']"
    "cfg_text ex_runtime [''version = 9''] \<noteq> cfg_text ex_runtime [''version = 3.11'']"
    by (simp_all add: cfg_text_def)
  show ?thesis
    using a b fa fb ne by simp
qed



subsection \<open>Environment composition\<close>

text \<open>
  The search path after \<open>SetupEnvironment\<close>: the composed text, cut to the 1023 characters
  \<open>wsprintfW\<close> stores, where the part after the last semicolon is the prior value if the
  variable exists and otherwise what the uninitialised array happened to hold.
\<close>

lemma SetupEnvironment_path:
  assumes "length baseDir + 21 < MAX_PATH"
  shows "path_after (SetupEnvironment baseDir V R residue envt) =
           Some (take 1023 (composed_path V R
             (c_str (GetEnvironmentVariableW envt ''PATH'' residue MAX_ENV_SIZE))))"
  using assms
  by (simp add: SetupEnvironment_def SetEnvironmentVariableW_def wsprintfW_def Let_def
      MAX_PATH_def MAX_ENV_SIZE_def path_after_def composed_path_def
      GetEnvironmentVariableW_def)

lemma c_str_id: "NUL \<notin> set s \<Longrightarrow> c_str s = s"
  by (auto simp: c_str_def)

text \<open>
  Where the composition is exact: the variable exists and the composed text is at most
  1023 characters long.
\<close>

lemma SetupEnvironment_composes:
  assumes "length baseDir + 21 < MAX_PATH"
      and "envt ''PATH'' = Some P" and "NUL \<notin> set P"
      and "length (composed_path V R P) \<le> 1023"
  shows "path_after (SetupEnvironment baseDir V R residue envt) = Some (composed_path V R P)"
proof -
  have "length P < MAX_ENV_SIZE"
    using assms(4) by (simp add: composed_path_def MAX_ENV_SIZE_def)
  then have "c_str (GetEnvironmentVariableW envt ''PATH'' residue MAX_ENV_SIZE) = P"
    using assms(2,3) by (simp add: GetEnvironmentVariableW_def c_str_id)
  then show ?thesis
    using assms(4) by (simp add: SetupEnvironment_path [OF assms(1)])
qed

text \<open>
  The example of the specification: the prior value is the directory \<open>X\<close> of drive C, the
  directories are \<open>V\<close> and \<open>R\<close>.
\<close>

lemma SetupEnvironment_example:
  "path_after (SetupEnvironment ''B'' ''V'' ''R'' residue [''PATH'' \<mapsto> ''C:'' @ BS # ''X'']) =
     Some (''V'' @ BS # ''Scripts;R;R'' @ BS # ''Scripts;C:'' @ BS # ''X'')"
proof -
  have "path_after (SetupEnvironment ''B'' ''V'' ''R'' residue [''PATH'' \<mapsto> ''C:'' @ BS # ''X'']) =
      Some (composed_path ''V'' ''R'' (''C:'' @ BS # ''X''))"
    by (rule SetupEnvironment_composes) (simp_all add: MAX_PATH_def composed_path_def)
  then show ?thesis by (simp add: composed_path_def)
qed

text \<open>
  Claim C3 fails on the code for a long prior value. With \<open>V\<close>, \<open>R\<close> and a search path of
  1100 characters, the variable is set to the first 1023 characters of the composed text:
  only 1001 characters of the prior value survive.
\<close>

theorem SetupEnvironment_cuts_long_search_path:
  "path_after (SetupEnvironment ''B'' ''V'' ''R'' [] [''PATH'' \<mapsto> replicate 1100 CHR ''a'']) =
     Some (composed_path ''V'' ''R'' (replicate 1001 CHR ''a'')) \<and>
   composed_path ''V'' ''R'' (replicate 1001 CHR ''a'') \<noteq>
     composed_path ''V'' ''R'' (replicate 1100 CHR ''a'')"
proof -
  have fit: "length ''B'' + 21 < MAX_PATH"
    by (simp add: MAX_PATH_def)
  have "c_str (replicate 1100 CHR ''a'') = replicate 1100 CHR ''a''"
    by (rule c_str_id) simp
  then have "path_after (SetupEnvironment ''B'' ''V'' ''R'' []
        [''PATH'' \<mapsto> replicate 1100 CHR ''a'']) =
      Some (take 1023 (composed_path ''V'' ''R'' (replicate 1100 CHR ''a'')))"
    by (simp add: SetupEnvironment_path [OF fit] GetEnvironmentVariableW_def MAX_ENV_SIZE_def)
  moreover have "take 1023 (composed_path ''V'' ''R'' (replicate 1100 CHR ''a'')) =
      composed_path ''V'' ''R'' (replicate 1001 CHR ''a'')"
    by (simp add: composed_path_def)
  moreover have "length (composed_path ''V'' ''R'' (replicate 1001 CHR ''a'')) \<noteq>
      length (composed_path ''V'' ''R'' (replicate 1100 CHR ''a''))"
    by (simp add: composed_path_def)
  ultimately show ?thesis by auto
qed

text \<open>
  Claim C8 fails on the code. With the search-path variable unset,
  \<open>GetEnvironmentVariableW\<close> stores nothing, and the text composed ends with what the
  uninitialised array \<open>oldPath\<close> held, here the characters \<open>stack junk\<close>, not with nothing.
\<close>

theorem SetupEnvironment_unset_path_reads_residue:
  "path_after (SetupEnvironment ''B'' ''V'' ''R'' ''stack junk'' Map.empty) =
     Some (composed_path ''V'' ''R'' ''stack junk'') \<and>
   composed_path ''V'' ''R'' ''stack junk'' \<noteq> composed_path ''V'' ''R'' []"
proof -
  have fit: "length ''B'' + 21 < MAX_PATH"
    by (simp add: MAX_PATH_def)
  show ?thesis
    by (simp add: SetupEnvironment_path [OF fit] GetEnvironmentVariableW_def c_str_def
        composed_path_def)
qed

text \<open>The result the claim names is reached only when that array happens to begin with a zero.\<close>

lemma SetupEnvironment_unset_path_zero_residue:
  assumes "length baseDir + 21 < MAX_PATH" and "length V + 2 * length R + 19 \<le> 1023"
  shows "path_after (SetupEnvironment baseDir V R (NUL # junk) Map.empty) =
           Some (composed_path V R [])"
  using assms(2)
  by (simp add: SetupEnvironment_path [OF assms(1)] GetEnvironmentVariableW_def c_str_def
      composed_path_def)

subsection \<open>The orchestrator\<close>

lemma exe_copy_fits:
  "wcscpy_s MAX_PATH (GetModuleFileNameW w MAX_PATH) = Inr (GetModuleFileNameW w MAX_PATH)"
  by (simp add: wcscpy_s_def GetModuleFileNameW_def MAX_PATH_def)

text \<open>The three exits that precede the config repair.\<close>

lemma WinMain_already_running:
  assumes "fst (IsAppRunning APP_PORT (network w))"
  shows "WinMain w =
           Inr (0, MessageBoxW ''YakuLingo is already running.'' ''YakuLingo''
                     (MB_ICONINFORMATION OR MB_OK)
                     (w\<lparr>winhttp_calls := winhttp_calls w @ snd (IsAppRunning APP_PORT (network w))\<rparr>))"
  unfolding WinMain_def exe_copy_fits sum.case using assms by (simp add: Let_def)

lemma WinMain_runtime_not_found:
  assumes "\<not> fst (IsAppRunning APP_PORT (network w))"
      and "FindPythonDir (install_root w) (disk w) = Inr None"
  shows "WinMain w =
           Inr (1, ShowError (''Python not found in .uv-python directory.'' @ [NL, NL] @
                              ''Please reinstall the application.'')
                     (w\<lparr>winhttp_calls := winhttp_calls w @ snd (IsAppRunning APP_PORT (network w))\<rparr>))"
  unfolding WinMain_def exe_copy_fits sum.case install_root_def [symmetric] using assms
  by (simp add: Let_def)

lemma WinMain_venv_missing:
  assumes "\<not> fst (IsAppRunning APP_PORT (network w))"
      and "FindPythonDir (install_root w) (disk w) = Inr (Some pythonDir)"
      and "wsprintfW MAX_PATH (install_root w @ BS # ''.venv'') = Inr venvDir"
      and "wsprintfW MAX_PATH (venvDir @ BS # ''Scripts'' @ BS # ''pythonw.exe'') = Inr pythonExe"
      and "GetFileAttributesW (disk w) pythonExe = None"
  shows "WinMain w =
           Inr (1, ShowError (''.venv not found.'' @ [NL, NL] @
                              ''Please reinstall the application.'')
                     (w\<lparr>winhttp_calls := winhttp_calls w @ snd (IsAppRunning APP_PORT (network w))\<rparr>))"
  unfolding WinMain_def exe_copy_fits sum.case install_root_def [symmetric] using assms
  by (simp add: Let_def)

lemma WinMain_repairs_then_launches:
  assumes "\<not> fst (IsAppRunning APP_PORT (network w))"
      and "FindPythonDir (install_root w) (disk w) = Inr (Some pythonDir)"
      and "wsprintfW MAX_PATH (install_root w @ BS # ''.venv'') = Inr venvDir"
      and "wsprintfW MAX_PATH (venvDir @ BS # ''Scripts'' @ BS # ''pythonw.exe'') = Inr pythonExe"
      and "GetFileAttributesW (disk w) pythonExe \<noteq> None"
  shows "WinMain w =
           (case FixPyvenvCfg venvDir pythonDir (disk w) of
              Inl e \<Rightarrow> Inl e
            | Inr (fixed, disk') \<Rightarrow>
                launch (install_root w) venvDir pythonDir pythonExe
                  (w\<lparr>winhttp_calls := winhttp_calls w @ snd (IsAppRunning APP_PORT (network w)),
                     disk := disk'\<rparr>))"
proof -
  from assms(5) obtain attrs where "GetFileAttributesW (disk w) pythonExe = Some attrs"
    by auto
  then show ?thesis
    unfolding WinMain_def exe_copy_fits sum.case install_root_def [symmetric] using assms(1-4)
    by (simp add: Let_def)
qed

lemma SetupEnvironment_returns:
  assumes "length baseDir + 21 < MAX_PATH"
  shows "\<exists>env'. SetupEnvironment baseDir V R residue envt = Inr env'"
  using assms
  by (simp add: SetupEnvironment_def SetEnvironmentVariableW_def wsprintfW_def Let_def
      MAX_PATH_def MAX_ENV_SIZE_def)

text \<open>What \<open>launch\<close> does once the environment is composed and the paths fit.\<close>

lemma launch_eq:
  assumes "length baseDir + 26 < MAX_PATH"
      and "SetupEnvironment baseDir (baseDir @ BS # ''.venv'') pythonDir (oldPath_residue w)
             (environ w) = Inr env'"
  shows "launch baseDir (baseDir @ BS # ''.venv'') pythonDir
           (baseDir @ BS # ''.venv'' @ BS # ''Scripts'' @ BS # ''pythonw.exe'') w =
         (if CreateProcessW_ok w
          then Inr (0, w\<lparr>environ := env',
                 children := children w @
                   [\<lparr>lpCommandLine = [DQ] @ baseDir @ BS # ''.venv'' @ BS # ''Scripts'' @ BS #
                        ''pythonw.exe'' @ [DQ] @ '' '' @ [DQ] @ baseDir @ BS # ''app.py'' @ [DQ],
                     lpCurrentDirectory = baseDir,
                     dwCreationFlags = CREATE_NO_WINDOW OR DETACHED_PROCESS,
                     dwFlags = STARTF_USESHOWWINDOW, wShowWindow = SW_HIDE,
                     lpEnvironment = env'\<rparr>]\<rparr>)
          else Inr (1, ShowError (''Failed to start application.'' @ [NL, NL] @
                                  ''Please check your installation.'') (w\<lparr>environ := env'\<rparr>)))"
  using assms
  by (simp add: launch_def wsprintfW_def MAX_PATH_def CreateProcessW_def CloseHandle_def)

lemma ex_install_root: "install_root (ex_world net fsys) = ex_root"
  by (simp add: install_root_def GetModuleFileNameW_def PathRemoveFileSpecW_def path_dir_def
      ex_world_def ex_root_def MAX_PATH_def)

lemma ex_listener: "fst (IsAppRunning APP_PORT listener)"
  by (simp add: IsAppRunning_def listener_def)

lemma ex_no_listener: "\<not> fst (IsAppRunning APP_PORT no_listener)"
  by (simp add: IsAppRunning_def no_listener_def)

lemma ex_root_fits: "length ex_root + 26 < MAX_PATH"
  by (simp add: ex_root_def MAX_PATH_def)

lemma ex_FindPythonDir: "FindPythonDir ex_root (ex_disk cfg) = Inr (Some ex_runtime)"
proof -
  have "length ex_root + 21 < MAX_PATH"
    using ex_root_fits by simp
  then have "FindPythonDir ex_root (ex_disk cfg) =
      (case wsprintfW MAX_PATH (ex_root @ BS # ''.uv-python'' @ BS # ''cpython-3.11.5'') of
         Inl f \<Rightarrow> Inl f | Inr p \<Rightarrow> Inr (Some p))"
    by (simp add: FindPythonDir_first ex_candidates)
  then show ?thesis
    by (simp add: wsprintfW_def MAX_PATH_def ex_root_def ex_runtime_def)
qed

lemma ex_pythonw:
  "GetFileAttributesW (ex_disk cfg) (ex_root @ BS # ''.venv'' @ BS # ''Scripts'' @ BS # ''pythonw.exe'') =
     Some FILE_ATTRIBUTE_NORMAL"
  by (simp add: GetFileAttributesW_def ex_disk_def ex_venv_def ex_cfg_def ex_root_def)

text \<open>
  Claim C6. When the probe reports a running application, \<open>WinMain\<close> exits with code 0
  after one dialog, which is informational and not an error dialog; the file system is
  what it was and no process has been started.
\<close>

theorem already_running_exit:
  assumes "fst (IsAppRunning APP_PORT (network w))"
  shows "\<exists>w'. WinMain w = Inr (0, w') \<and>
           disk w' = disk w \<and> children w' = children w \<and>
           message_boxes w' = message_boxes w @
             [(''YakuLingo is already running.'', ''YakuLingo'', MB_ICONINFORMATION OR MB_OK)] \<and>
           \<not> is_error_box
             (''YakuLingo is already running.'', ''YakuLingo'', MB_ICONINFORMATION OR MB_OK)"
  by (simp add: WinMain_already_running [OF assms] MessageBoxW_def is_error_box_def
      MB_ICONINFORMATION_def MB_OK_def MB_ICONERROR_def)

theorem already_running_exit_witness:
  "\<exists>w'. WinMain (ex_world listener (ex_disk ex_cfg_text)) = Inr (0, w') \<and>
     disk w' = ex_disk ex_cfg_text \<and> children w' = [] \<and>
     message_boxes w' =
       [(''YakuLingo is already running.'', ''YakuLingo'', MB_ICONINFORMATION OR MB_OK)]"
proof -
  have "fst (IsAppRunning APP_PORT (network (ex_world listener (ex_disk ex_cfg_text))))"
    by (simp add: ex_world_def ex_listener)
  from already_running_exit [OF this] show ?thesis
    by (auto simp: ex_world_def)
qed


lemma ex_FixPyvenvCfg:
  "FixPyvenvCfg (ex_root @ BS # ''.venv'') ex_runtime (ex_disk ex_cfg_text) =
     Inr (True, ex_disk ex_cfg_text\<lparr>files := (files (ex_disk ex_cfg_text))
       (ex_venv @ BS # ''pyvenv.cfg'' \<mapsto> cfg_text ex_runtime [''version = 3.11.5''])\<rparr>)"
proof -
  have "version_lines (ex_disk ex_cfg_text) (ex_venv @ BS # ''pyvenv.cfg'') =
      [''version = 3.11.5'']"
    by (simp add: ex_version_lines ex_cfg_text_lines is_version_line_simps)
  then have "FixPyvenvCfg ex_venv ex_runtime (ex_disk ex_cfg_text) =
     Inr (True, ex_disk ex_cfg_text\<lparr>files := (files (ex_disk ex_cfg_text))
       (ex_venv @ BS # ''pyvenv.cfg'' \<mapsto> cfg_text ex_runtime [''version = 3.11.5''])\<rparr>)"
    by (simp add: FixPyvenvCfg_eq [OF ex_cfg_fits] fits_version_def captured_def ex_writable)
  then show ?thesis by (simp add: ex_venv_def)
qed






text \<open>
  Claim C10. At each of the three exits taken before the environment is composed
  (already running, exit code 0; runtime not found, exit code 1; interpreter of the
  virtual environment missing, exit code 1) the environment of the process is what it
  was. Conversely, a run that returns with a changed environment has passed the check
  that the interpreter of the virtual environment exists.
\<close>

theorem early_exits_keep_environment:
  "(fst (IsAppRunning APP_PORT (network w)) \<longrightarrow>
      (\<exists>w'. WinMain w = Inr (0, w') \<and> environ w' = environ w)) \<and>
   (\<not> fst (IsAppRunning APP_PORT (network w)) \<and>
    FindPythonDir (install_root w) (disk w) = Inr None \<longrightarrow>
      (\<exists>w'. WinMain w = Inr (1, w') \<and> environ w' = environ w)) \<and>
   (\<forall>pythonDir venvDir pythonExe.
      \<not> fst (IsAppRunning APP_PORT (network w)) \<and>
      FindPythonDir (install_root w) (disk w) = Inr (Some pythonDir) \<and>
      wsprintfW MAX_PATH (install_root w @ BS # ''.venv'') = Inr venvDir \<and>
      wsprintfW MAX_PATH (venvDir @ BS # ''Scripts'' @ BS # ''pythonw.exe'') = Inr pythonExe \<and>
      GetFileAttributesW (disk w) pythonExe = None \<longrightarrow>
      (\<exists>w'. WinMain w = Inr (1, w') \<and> environ w' = environ w)) \<and>
   (\<forall>code w'.
      WinMain w = Inr (code, w') \<and> environ w' \<noteq> environ w \<longrightarrow>
      \<not> fst (IsAppRunning APP_PORT (network w)) \<and>
      (\<exists>pythonDir venvDir pythonExe.
         FindPythonDir (install_root w) (disk w) = Inr (Some pythonDir) \<and>
         wsprintfW MAX_PATH (install_root w @ BS # ''.venv'') = Inr venvDir \<and>
         wsprintfW MAX_PATH (venvDir @ BS # ''Scripts'' @ BS # ''pythonw.exe'') = Inr pythonExe \<and>
         GetFileAttributesW (disk w) pythonExe \<noteq> None))"
proof (intro conjI impI allI)
  assume "fst (IsAppRunning APP_PORT (network w))"
  then show "\<exists>w'. WinMain w = Inr (0, w') \<and> environ w' = environ w"
    by (simp add: WinMain_already_running MessageBoxW_def)
next
  assume "\<not> fst (IsAppRunning APP_PORT (network w)) \<and>
    FindPythonDir (install_root w) (disk w) = Inr None"
  then show "\<exists>w'. WinMain w = Inr (1, w') \<and> environ w' = environ w"
    by (simp add: WinMain_runtime_not_found ShowError_def MessageBoxW_def)
next
  fix pythonDir venvDir pythonExe
  assume h: "\<not> fst (IsAppRunning APP_PORT (network w)) \<and>
      FindPythonDir (install_root w) (disk w) = Inr (Some pythonDir) \<and>
      wsprintfW MAX_PATH (install_root w @ BS # ''.venv'') = Inr venvDir \<and>
      wsprintfW MAX_PATH (venvDir @ BS # ''Scripts'' @ BS # ''pythonw.exe'') = Inr pythonExe \<and>
      GetFileAttributesW (disk w) pythonExe = None"
  have h1: "\<not> fst (IsAppRunning APP_PORT (network w))"
    and h2: "FindPythonDir (install_root w) (disk w) = Inr (Some pythonDir)"
    and h3: "wsprintfW MAX_PATH (install_root w @ BS # ''.venv'') = Inr venvDir"
    and h4: "wsprintfW MAX_PATH (venvDir @ BS # ''Scripts'' @ BS # ''pythonw.exe'') = Inr pythonExe"
    and h5: "GetFileAttributesW (disk w) pythonExe = None"
    using h by simp_all
  have "WinMain w =
      Inr (1, ShowError (''.venv not found.'' @ [NL, NL] @ ''Please reinstall the application.'')
                (w\<lparr>winhttp_calls := winhttp_calls w @ snd (IsAppRunning APP_PORT (network w))\<rparr>))"
    by (rule WinMain_venv_missing [OF h1 h2 h3 h4 h5])
  then show "\<exists>w'. WinMain w = Inr (1, w') \<and> environ w' = environ w"
    by (simp add: ShowError_def MessageBoxW_def)
next
  fix code w'
  assume a: "WinMain w = Inr (code, w') \<and> environ w' \<noteq> environ w"
  show "\<not> fst (IsAppRunning APP_PORT (network w))"
  proof
    assume "fst (IsAppRunning APP_PORT (network w))"
    then show False
      using a by (simp add: WinMain_already_running MessageBoxW_def) auto
  qed
next
  fix code w'
  assume a: "WinMain w = Inr (code, w') \<and> environ w' \<noteq> environ w"
  then show "\<exists>pythonDir venvDir pythonExe.
         FindPythonDir (install_root w) (disk w) = Inr (Some pythonDir) \<and>
         wsprintfW MAX_PATH (install_root w @ BS # ''.venv'') = Inr venvDir \<and>
         wsprintfW MAX_PATH (venvDir @ BS # ''Scripts'' @ BS # ''pythonw.exe'') = Inr pythonExe \<and>
         GetFileAttributesW (disk w) pythonExe \<noteq> None"
    unfolding WinMain_def exe_copy_fits sum.case install_root_def [symmetric]
    by (auto simp: Let_def MessageBoxW_def ShowError_def
        split: if_splits sum.splits option.splits)
qed

lemma SetupEnvironment_sets_virtual_env:
  "SetupEnvironment baseDir V R residue envt = Inr env' \<Longrightarrow> env' ''VIRTUAL_ENV'' = Some V"
  by (auto simp: SetupEnvironment_def SetEnvironmentVariableW_def Let_def split: sum.splits)

text \<open>
  The end-to-end scenario with no listener: the launcher repairs the config, composes the
  environment, starts one child and exits with code 0, leaving no handle open.
\<close>

lemma ex_end_to_end:
  "\<exists>w'. WinMain (ex_world no_listener (ex_disk ex_cfg_text)) = Inr (0, w') \<and>
         environ w' ''VIRTUAL_ENV'' = Some (ex_root @ BS # ''.venv'') \<and>
         map lpCurrentDirectory (children w') = [ex_root] \<and> open_handles w' = 0"
proof -
  let ?A = "ex_world no_listener (ex_disk ex_cfg_text)"
  let ?d = "ex_disk ex_cfg_text\<lparr>files := (files (ex_disk ex_cfg_text))
       (ex_venv @ BS # ''pyvenv.cfg'' \<mapsto> cfg_text ex_runtime [''version = 3.11.5''])\<rparr>"
  let ?w2 = "?A\<lparr>winhttp_calls := winhttp_calls ?A @ snd (IsAppRunning APP_PORT (network ?A)),
               disk := ?d\<rparr>"
  have ok: "CreateProcessW_ok (ex_world net fsys)" "children (ex_world net fsys) = []"
    "network (ex_world net fsys) = net" "disk (ex_world net fsys) = fsys"
    "open_handles (ex_world net fsys) = 0" for net fsys
    by (simp_all add: ex_world_def)
  have a1: "\<not> fst (IsAppRunning APP_PORT (network ?A))"
    by (simp add: ok ex_no_listener)
  have a3: "FindPythonDir (install_root ?A) (disk ?A) = Inr (Some ex_runtime)"
    by (simp add: ok ex_install_root ex_FindPythonDir)
  have venv: "wsprintfW MAX_PATH (install_root ?A @ BS # ''.venv'') = Inr (ex_root @ BS # ''.venv'')"
    using ex_root_fits by (simp add: ex_install_root wsprintfW_def MAX_PATH_def)
  have exe: "wsprintfW MAX_PATH ((ex_root @ BS # ''.venv'') @ BS # ''Scripts'' @ BS # ''pythonw.exe'') =
      Inr (ex_root @ BS # ''.venv'' @ BS # ''Scripts'' @ BS # ''pythonw.exe'')"
    using ex_root_fits by (simp add: wsprintfW_def MAX_PATH_def)
  have a4: "GetFileAttributesW (disk ?A)
      (ex_root @ BS # ''.venv'' @ BS # ''Scripts'' @ BS # ''pythonw.exe'') \<noteq> None"
    unfolding ok ex_pythonw by simp
  have "length ex_root + 21 < MAX_PATH"
    using ex_root_fits by simp
  from SetupEnvironment_returns [OF this]
  obtain env' where env': "SetupEnvironment ex_root (ex_root @ BS # ''.venv'') ex_runtime
      (oldPath_residue ?w2) (environ ?w2) = Inr env'"
    by blast
  have "WinMain ?A =
      launch ex_root (ex_root @ BS # ''.venv'') ex_runtime
        (ex_root @ BS # ''.venv'' @ BS # ''Scripts'' @ BS # ''pythonw.exe'') ?w2"
    using WinMain_repairs_then_launches [OF a1 a3 venv exe a4] ex_FixPyvenvCfg
    by (simp add: ok ex_install_root)
  then show ?thesis
    using launch_eq [OF ex_root_fits env'] SetupEnvironment_sets_virtual_env [OF env']
    by (simp add: ok)
qed

lemma ex_FindPythonDir_no_files:
  "FindPythonDir ex_root (ex_disk cfg\<lparr>files := Map.empty\<rparr>) = Inr (Some ex_runtime)"
proof -
  have "length ex_root + 21 < MAX_PATH"
    using ex_root_fits by simp
  moreover have "runtime_candidates (ex_disk cfg\<lparr>files := Map.empty\<rparr>) ex_root =
      runtime_candidates (ex_disk cfg) ex_root"
    by (simp add: runtime_candidates_def)
  ultimately have "FindPythonDir ex_root (ex_disk cfg\<lparr>files := Map.empty\<rparr>) =
      (case wsprintfW MAX_PATH (ex_root @ BS # ''.uv-python'' @ BS # ''cpython-3.11.5'') of
         Inl f \<Rightarrow> Inl f | Inr p \<Rightarrow> Inr (Some p))"
    by (simp add: FindPythonDir_first ex_candidates)
  then show ?thesis
    by (simp add: wsprintfW_def MAX_PATH_def ex_root_def ex_runtime_def)
qed

lemma ex_FindPythonDir_no_dirs:
  "FindPythonDir ex_root (ex_disk cfg\<lparr>dirs := Map.empty\<rparr>) = Inr None"
proof -
  have "length ex_root + 21 < MAX_PATH"
    using ex_root_fits by simp
  then show ?thesis
    by (simp add: FindPythonDir_first ex_no_candidates)
qed

lemma ex_pythonw_no_files:
  "GetFileAttributesW (ex_disk cfg\<lparr>files := Map.empty\<rparr>)
     (ex_root @ BS # ''.venv'' @ BS # ''Scripts'' @ BS # ''pythonw.exe'') = None"
  by (simp add: GetFileAttributesW_def ex_disk_def ex_root_def)

theorem early_exits_keep_environment_witness:
  "(\<exists>w'. WinMain (ex_world listener (ex_disk ex_cfg_text)) = Inr (0, w') \<and>
          environ w' = environ (ex_world listener (ex_disk ex_cfg_text))) \<and>
   (\<exists>w'. WinMain (ex_world no_listener (ex_disk ex_cfg_text\<lparr>dirs := Map.empty\<rparr>)) = Inr (1, w') \<and>
          environ w' = environ (ex_world no_listener (ex_disk ex_cfg_text\<lparr>dirs := Map.empty\<rparr>))) \<and>
   (\<exists>w'. WinMain (ex_world no_listener (ex_disk ex_cfg_text\<lparr>files := Map.empty\<rparr>)) = Inr (1, w') \<and>
          environ w' = environ (ex_world no_listener (ex_disk ex_cfg_text\<lparr>files := Map.empty\<rparr>))) \<and>
   GetFileAttributesW (ex_disk ex_cfg_text)
     (ex_root @ BS # ''.venv'' @ BS # ''Scripts'' @ BS # ''pythonw.exe'') \<noteq> None"
proof -
  let ?W1 = "ex_world listener (ex_disk ex_cfg_text)"
  let ?W2 = "ex_world no_listener (ex_disk ex_cfg_text\<lparr>dirs := Map.empty\<rparr>)"
  let ?W3 = "ex_world no_listener (ex_disk ex_cfg_text\<lparr>files := Map.empty\<rparr>)"
  let ?A = "ex_world no_listener (ex_disk ex_cfg_text)"
  have ok: "network (ex_world net fsys) = net" "disk (ex_world net fsys) = fsys"
    "environ (ex_world net fsys) ''VIRTUAL_ENV'' = None" for net fsys
    by (simp_all add: ex_world_def)
  have r1: "fst (IsAppRunning APP_PORT (network ?W1))"
    by (simp add: ok ex_listener)
  have r2: "\<not> fst (IsAppRunning APP_PORT (network ?W2)) \<and>
      FindPythonDir (install_root ?W2) (disk ?W2) = Inr None"
    by (simp add: ok ex_no_listener ex_install_root ex_FindPythonDir_no_dirs)
  have venv: "wsprintfW MAX_PATH (ex_root @ BS # ''.venv'') = Inr (ex_root @ BS # ''.venv'')"
    using ex_root_fits by (simp add: wsprintfW_def MAX_PATH_def)
  have exe: "wsprintfW MAX_PATH ((ex_root @ BS # ''.venv'') @ BS # ''Scripts'' @ BS # ''pythonw.exe'') =
      Inr (ex_root @ BS # ''.venv'' @ BS # ''Scripts'' @ BS # ''pythonw.exe'')"
    using ex_root_fits by (simp add: wsprintfW_def MAX_PATH_def)
  have r3: "\<not> fst (IsAppRunning APP_PORT (network ?W3)) \<and>
      FindPythonDir (install_root ?W3) (disk ?W3) = Inr (Some ex_runtime) \<and>
      wsprintfW MAX_PATH (install_root ?W3 @ BS # ''.venv'') = Inr (ex_root @ BS # ''.venv'') \<and>
      wsprintfW MAX_PATH ((ex_root @ BS # ''.venv'') @ BS # ''Scripts'' @ BS # ''pythonw.exe'') =
        Inr (ex_root @ BS # ''.venv'' @ BS # ''Scripts'' @ BS # ''pythonw.exe'') \<and>
      GetFileAttributesW (disk ?W3)
        (ex_root @ BS # ''.venv'' @ BS # ''Scripts'' @ BS # ''pythonw.exe'') = None"
    unfolding ok ex_install_root ex_pythonw_no_files ex_FindPythonDir_no_files venv exe
    by (simp add: ex_no_listener)
  from ex_end_to_end obtain wA where
    w1: "WinMain ?A = Inr (0, wA)" and
    w2: "environ wA ''VIRTUAL_ENV'' = Some (ex_root @ BS # ''.venv'')"
    by blast
  have "environ wA \<noteq> environ ?A"
  proof
    assume "environ wA = environ ?A"
    then have "environ wA ''VIRTUAL_ENV'' = None" by (simp add: ok)
    with w2 show False by simp
  qed
  with w1 have wA: "WinMain ?A = Inr (0, wA) \<and> environ wA \<noteq> environ ?A"
    by simp
  have c1: "\<exists>w'. WinMain ?W1 = Inr (0, w') \<and> environ w' = environ ?W1"
    using early_exits_keep_environment [of ?W1] r1 by blast
  have c2: "\<exists>w'. WinMain ?W2 = Inr (1, w') \<and> environ w' = environ ?W2"
    using early_exits_keep_environment [of ?W2] r2 by blast
  have c3: "\<exists>w'. WinMain ?W3 = Inr (1, w') \<and> environ w' = environ ?W3"
    using early_exits_keep_environment [of ?W3] r3 by blast
  have "\<exists>pythonDir venvDir pythonExe.
         FindPythonDir (install_root ?A) (disk ?A) = Inr (Some pythonDir) \<and>
         wsprintfW MAX_PATH (install_root ?A @ BS # ''.venv'') = Inr venvDir \<and>
         wsprintfW MAX_PATH (venvDir @ BS # ''Scripts'' @ BS # ''pythonw.exe'') = Inr pythonExe \<and>
         GetFileAttributesW (disk ?A) pythonExe \<noteq> None"
    using early_exits_keep_environment [of ?A] wA by blast
  then have c4: "GetFileAttributesW (ex_disk ex_cfg_text)
     (ex_root @ BS # ''.venv'' @ BS # ''Scripts'' @ BS # ''pythonw.exe'') \<noteq> None"
    unfolding ok ex_install_root venv using exe by auto
  from c1 c2 c3 c4 show ?thesis by blast
qed

lemma WinMain_locator_fault:
  assumes "\<not> fst (IsAppRunning APP_PORT (network w))"
      and "FindPythonDir (install_root w) (disk w) = Inl e"
  shows "WinMain w = Inl e"
  unfolding WinMain_def exe_copy_fits sum.case install_root_def [symmetric] using assms
  by (simp add: Let_def)

lemma ex_deep_root_length: "length ex_deep_root = 239"
  by (simp add: ex_deep_root_def)

lemma ex_deep_install_root:
  "install_root (ex_world net fsys\<lparr>module_file_name := ex_deep_root @ BS # ''YakuLingo.exe''\<rparr>) =
     ex_deep_root"
proof -
  have "take (MAX_PATH - 1) (ex_deep_root @ BS # ''YakuLingo.exe'') =
      ex_deep_root @ BS # ''YakuLingo.exe''"
    by (simp add: ex_deep_root_length MAX_PATH_def)
  moreover have "path_dir (ex_deep_root @ BS # ''YakuLingo.exe'') = ex_deep_root"
    by (simp add: path_dir_def)
  moreover have "last ex_deep_root = CHR ''d''" "ex_deep_root \<noteq> []"
    by (simp_all add: ex_deep_root_def)
  ultimately show ?thesis
    by (simp add: install_root_def GetModuleFileNameW_def PathRemoveFileSpecW_def)
qed

text \<open>
  Claim C5 fails on the code for an installation deep in the directory tree.
  \<open>FindPythonDir\<close> formats the search pattern into an array of \<open>MAX_PATH\<close> characters with
  \<open>wsprintfW\<close>, which knows no bound but its own, and never looks at its \<open>size\<close>
  parameter. With an installation directory of 239 characters the pattern has 260 and
  needs 261 with its terminator: the array is overrun, whether the runtime-cache
  directory holds exactly one candidate or none, and \<open>WinMain\<close> reaches that call with an
  executable path of 253 characters.
\<close>

theorem FindPythonDir_overruns_deep_root:
  "length ex_deep_root = 239 \<and>
   length (ex_deep_root @ BS # ''YakuLingo.exe'') < MAX_PATH \<and>
   runtime_candidates ex_deep_disk ex_deep_root =
     [\<lparr>dwFileAttributes = 0x10, cFileName = ''cpython-3''\<rparr>] \<and>
   FindPythonDir ex_deep_root ex_deep_disk = Inl BufferOverrun \<and>
   runtime_candidates (ex_deep_disk\<lparr>dirs := Map.empty\<rparr>) ex_deep_root = [] \<and>
   FindPythonDir ex_deep_root (ex_deep_disk\<lparr>dirs := Map.empty\<rparr>) = Inl BufferOverrun \<and>
   WinMain (ex_world no_listener ex_deep_disk
              \<lparr>module_file_name := ex_deep_root @ BS # ''YakuLingo.exe''\<rparr>) = Inl BufferOverrun"
proof -
  have c: "runtime_candidates ex_deep_disk ex_deep_root =
     [\<lparr>dwFileAttributes = 0x10, cFileName = ''cpython-3''\<rparr>]"
    by (simp add: runtime_candidates_def ex_deep_disk_def is_runtime_dir_def
        FILE_ATTRIBUTE_DIRECTORY_def)
  have c0: "runtime_candidates (ex_deep_disk\<lparr>dirs := Map.empty\<rparr>) ex_deep_root = []"
    by (simp add: runtime_candidates_def)
  have f: "FindPythonDir ex_deep_root fsys = Inl BufferOverrun" for fsys
    by (simp add: FindPythonDir_def wsprintfW_def MAX_PATH_def ex_deep_root_length)
  let ?w = "ex_world no_listener ex_deep_disk
              \<lparr>module_file_name := ex_deep_root @ BS # ''YakuLingo.exe''\<rparr>"
  have n: "\<not> fst (IsAppRunning APP_PORT (network ?w))"
    by (simp add: ex_world_def ex_no_listener)
  have "FindPythonDir (install_root ?w) (disk ?w) = Inl BufferOverrun"
    unfolding ex_deep_install_root by (rule f)
  with n have "WinMain ?w = Inl BufferOverrun"
    by (rule WinMain_locator_fault)
  then show ?thesis
    by (simp add: c c0 f ex_deep_root_length MAX_PATH_def)
qed

end
